theory Spec2Isabelle
  imports Complex_Main
begin

section \<open>Layout constants (ui/uiConstants.js, enemy/enemyConstants.js)\<close>

text \<open>
  JavaScript numbers are IEEE-754 doubles. Tick counters are whole numbers and are
  modelled as \<open>int\<close>; pixel coordinates are modelled as \<open>real\<close>. What the game computes
  frame after frame on numbers that are not whole is rounded to the nearest double, as
  the source rounds it (\<open>toDouble\<close> below): the horizontal step of \<open>Enemy.move\<close> by 0.3,
  the step of \<open>Bullet.draw\<close>, the x that \<open>getMiddlePosition\<close> hands to a new projectile, and
  the quotient by 1.1 in the constructor of Player. The edge of a sprite (a position
  plus a size) and a descent by the vertical step are taken exactly: the bottom edge
  of an enemy, which a new projectile takes as its y, and the descent are sums of whole
  numbers in the game, and every other edge is compared and not kept. Rendering (canvas
  blits, sprite-sheet frame counters) has no effect on the state the properties below
  speak about and is left out of the records.
\<close>

definition CANVAS_WIDTH :: real where "CANVAS_WIDTH = 640"
definition CANVAS_HEIGHT :: real where "CANVAS_HEIGHT = 480"

definition PADDING_SIDE :: real where "PADDING_SIDE = 60"
definition PADDING_TOP :: real where "PADDING_TOP = 40"
definition PADDING_BOTTOM :: real where "PADDING_BOTTOM = 80"

definition GRID_SIZE_ROWS :: nat where "GRID_SIZE_ROWS = 5"
definition GRID_SIZE_COLUMNS :: nat where "GRID_SIZE_COLUMNS = 11"

definition gridArea_HEIGHT :: real where
  "gridArea_HEIGHT = CANVAS_HEIGHT - (PADDING_TOP + PADDING_BOTTOM) - 160"
definition gridArea_WIDTH :: real where
  "gridArea_WIDTH = CANVAS_WIDTH - PADDING_SIDE * 2"

definition GRID_SPACING_VERTICAL :: real where
  "GRID_SPACING_VERTICAL = of_int \<lfloor>gridArea_HEIGHT / real GRID_SIZE_ROWS\<rfloor>"
definition GRID_SPACING_HORIZONTAL :: real where
  "GRID_SPACING_HORIZONTAL = of_int \<lfloor>gridArea_WIDTH / real GRID_SIZE_COLUMNS - 7\<rfloor>"

section \<open>Rounding to a double\<close>

text \<open>
  \<open>toDouble x\<close> is the double nearest to the real \<open>x\<close>, ties going to the even
  significand: with \<open>e\<close> the binary exponent of \<open>x\<close> (not below -1022, where the
  subnormal numbers begin) the doubles around \<open>x\<close> are the multiples of \<open>2 ^ (e - 52)\<close>.
  The exponent is found by halving or doubling; 1100 steps cover every finite double.
  A sum at or beyond \<open>2 ^ 1024\<close> is \<open>Infinity\<close> in JavaScript and has no counterpart
  here; adding 0.3 to a finite double never gets there.
\<close>

definition pow2 :: "int \<Rightarrow> real" where
  "pow2 e = (if 0 \<le> e then 2 ^ nat e else 1 / 2 ^ nat (- e))"

fun binaryExponent :: "nat \<Rightarrow> real \<Rightarrow> int" where
  "binaryExponent 0 x = 0"
| "binaryExponent (Suc n) x =
     (if 2 \<le> x then binaryExponent n (x / 2) + 1
      else if x < 1 then binaryExponent n (x * 2) - 1
      else 0)"

definition roundHalfEven :: "real \<Rightarrow> int" where
  "roundHalfEven y =
     (let f = \<lfloor>y\<rfloor>; d = y - of_int f
      in if d < 1 / 2 then f else if 1 / 2 < d then f + 1 else if even f then f else f + 1)"

definition toDouble :: "real \<Rightarrow> real" where
  "toDouble x =
     (if x = 0 then 0
      else let e = max (binaryExponent 1100 \<bar>x\<bar>) (- 1022);
               q = pow2 (e - 52)
           in q * of_int (roundHalfEven (x / q)))"

section \<open>Sprites: Enemy.js and Player.js\<close>

text \<open>
  Enemy and Player both carry \<open>xPosition\<close>, \<open>yPosition\<close>, \<open>width\<close>, \<open>height\<close> and the same
  four edge getters; \<open>collisionDetected\<close> is called on either. The common fields form the
  base record, so that the getters are written once for both classes.
\<close>

record Sprite =
  xPosition :: real
  yPosition :: real
  width :: real
  height :: real

record Enemy = Sprite +
  isGoingRight :: bool
  horizontalMoveSpeed :: real
  verticalMoveSpeed :: real

record Player = Sprite +
  movementSpeed :: real
  rightPressed :: bool
  leftPressed :: bool
  shooting :: bool

definition new_Enemy :: "real \<Rightarrow> real \<Rightarrow> Enemy" where
  "new_Enemy xOffset yOffset =
     \<lparr>xPosition = xOffset, yPosition = yOffset, width = 30, height = 40,
      isGoingRight = True, horizontalMoveSpeed = toDouble (3 / 10), verticalMoveSpeed = 20\<rparr>"

definition new_Player :: Player where
  "new_Player =
     \<lparr>xPosition = (CANVAS_WIDTH - 30) / 2,
      yPosition = toDouble ((CANVAS_HEIGHT - 50) / toDouble (11 / 10)),
      width = 30, height = 50,
      movementSpeed = 5, rightPressed = False, leftPressed = False, shooting = False\<rparr>"

definition getTopEdge :: "'a Sprite_scheme \<Rightarrow> real" where
  "getTopEdge s = yPosition s"
definition getBottomEdge :: "'a Sprite_scheme \<Rightarrow> real" where
  "getBottomEdge s = yPosition s + height s"
definition getLeftEdge :: "'a Sprite_scheme \<Rightarrow> real" where
  "getLeftEdge s = xPosition s"
definition getRightEdge :: "'a Sprite_scheme \<Rightarrow> real" where
  "getRightEdge s = xPosition s + width s"

text \<open>
  \<open>getMiddlePosition\<close> gives the x at which \<open>shoot\<close> places a projectile; the value is
  stored in the projectile, and it is the rounded sum.
\<close>

definition getMiddlePosition :: "Enemy \<Rightarrow> real" where
  "getMiddlePosition e = toDouble (xPosition e + toDouble (width e / 2))"

text \<open>
  The literal \<open>0.3\<close> of the constructor is the double nearest to 3/10. \<open>Enemy.move\<close>:
  \<open>this.xPosition += this.horizontalMoveSpeed\<close> (or \<open>-=\<close>) stores the rounded sum.
\<close>

definition Enemy_move :: "Enemy \<Rightarrow> Enemy" where
  "Enemy_move e =
     (if isGoingRight e = True
      then e\<lparr>xPosition := toDouble (xPosition e + horizontalMoveSpeed e)\<rparr>
      else e\<lparr>xPosition := toDouble (xPosition e - horizontalMoveSpeed e)\<rparr>)"

text \<open>\<open>Enemy.draw\<close>: the blit and the animation counters are rendering; what remains is the call of \<open>move\<close>.\<close>

definition Enemy_draw :: "Enemy \<Rightarrow> Enemy" where
  "Enemy_draw e = Enemy_move e"

definition moveDown :: "Enemy \<Rightarrow> Enemy" where
  "moveDown e =
     (if verticalMoveSpeed e > 0 then e\<lparr>yPosition := yPosition e + verticalMoveSpeed e\<rparr> else e)"

definition setDirectionRight :: "Enemy \<Rightarrow> Enemy" where
  "setDirectionRight e = e\<lparr>isGoingRight := True\<rparr>"
definition setDirectionLeft :: "Enemy \<Rightarrow> Enemy" where
  "setDirectionLeft e = e\<lparr>isGoingRight := False\<rparr>"

section \<open>Projectiles: Bullet.js\<close>

record Bullet =
  bullet_x :: real
  bullet_y :: real
  bullet_speed :: real
  bullet_width :: real
  bullet_height :: real
  bullet_shooter :: string

definition new_Bullet :: "real \<Rightarrow> real \<Rightarrow> real \<Rightarrow> string \<Rightarrow> Bullet" where
  "new_Bullet x y speed shooter =
     \<lparr>bullet_x = x, bullet_y = y, bullet_speed = speed,
      bullet_width = 20, bullet_height = 25, bullet_shooter = shooter\<rparr>"

definition Bullet_getTopEdge :: "Bullet \<Rightarrow> real" where
  "Bullet_getTopEdge b = bullet_y b"
definition Bullet_getBottomEdge :: "Bullet \<Rightarrow> real" where
  "Bullet_getBottomEdge b = bullet_y b + bullet_height b"
definition Bullet_getLeftEdge :: "Bullet \<Rightarrow> real" where
  "Bullet_getLeftEdge b = bullet_x b"
definition Bullet_getRightEdge :: "Bullet \<Rightarrow> real" where
  "Bullet_getRightEdge b = bullet_x b + bullet_width b"

text \<open>\<open>Bullet.draw\<close>: after the blit, \<open>this.y -= this.speed\<close> stores the rounded difference.\<close>

definition Bullet_draw :: "Bullet \<Rightarrow> Bullet" where
  "Bullet_draw b = b\<lparr>bullet_y := toDouble (bullet_y b - bullet_speed b)\<rparr>"

section \<open>The projectile pool: BulletControl.js\<close>

text \<open>
  The pool is a JavaScript array of Bullet objects; \<open>indexOf\<close> compares object references.
  An entry of the pool is therefore a pair of the object's identity and its fields, and
  the pool records how many Bullet objects it has created, which is the identity of the
  next one.
\<close>

type_synonym BulletObj = "nat \<times> Bullet"

text \<open>
  The constructor keeps the object it is given as \<open>this.canvas\<close>; the pool reads nothing of
  it but \<open>this.canvas.height\<close>. The field holds that property: \<open>None\<close> when the object has
  no property \<open>height\<close> (the read gives \<open>undefined\<close>).
\<close>

record BulletControl =
  canvas_height :: "real option"
  bullets :: "BulletObj list"
  waitTime :: int
  shooter :: "string option"
  created :: nat

definition new_BulletControl :: "real option \<Rightarrow> BulletControl" where
  "new_BulletControl canvasHeight =
     \<lparr>canvas_height = canvasHeight, bullets = [], waitTime = 0, shooter = None, created = 0\<rparr>"

text \<open>
  script.js builds both pools with \<open>new BulletControl(CANVAS)\<close>, where \<open>CANVAS\<close> is the
  constants object of ui/uiConstants.js. Its properties are \<open>CONTEXT\<close>, \<open>WIDTH\<close> and \<open>HEIGHT\<close>;
  it has no property \<open>height\<close>.
\<close>

definition CANVAS_height :: "real option" where
  "CANVAS_height = None"

text \<open>\<open>Array.prototype.indexOf\<close> on object references: the first index holding the object, or -1.\<close>

fun indexOf :: "BulletObj list \<Rightarrow> nat \<Rightarrow> int" where
  "indexOf [] r = - 1"
| "indexOf (p # ps) r =
     (if fst p = r then 0 else (let i = indexOf ps r in if i < 0 then - 1 else i + 1))"

text \<open>
  \<open>arr.splice(start, 1)\<close>: a negative start counts from the end (clamped at 0), a start at or
  beyond the length removes nothing.
\<close>

definition splice1 :: "int \<Rightarrow> 'a list \<Rightarrow> 'a list" where
  "splice1 start xs =
     (let n = int (length xs);
          s = (if start < 0 then max (n + start) 0 else min start n)
      in take (nat s) xs @ drop (nat s + 1) xs)"

text \<open>The per-call decrement at the end of \<open>shoot\<close> ("NEEDS TO be here or else only one enemy shoots").\<close>

definition requestCadence :: "string \<Rightarrow> BulletControl \<Rightarrow> BulletControl" where
  "requestCadence sh bc = (if sh \<noteq> ''player'' then bc\<lparr>waitTime := waitTime bc - 1\<rparr> else bc)"

definition BulletControl_shoot ::
  "real \<Rightarrow> real \<Rightarrow> real \<Rightarrow> int \<Rightarrow> string \<Rightarrow> BulletControl \<Rightarrow> BulletControl" where
  "BulletControl_shoot x y speed delay sh bc =
     (let bc1 = bc\<lparr>shooter := Some sh\<rparr>;
          bc2 = (if waitTime bc1 \<le> 0
                 then bc1\<lparr>bullets := bullets bc1 @ [(created bc1, new_Bullet x y speed sh)],
                          created := Suc (created bc1),
                          waitTime := delay\<rparr>
                 else bc1)
      in requestCadence sh bc2)"

text \<open>
  \<open>isOffScreen\<close>: \<open>Bullet.y <= -this.canvas.height\<close>. With \<open>height\<close> undefined the right-hand
  side is NaN and the comparison is false.
\<close>

definition isOffScreen :: "BulletControl \<Rightarrow> Bullet \<Rightarrow> bool" where
  "isOffScreen bc b =
     (case canvas_height bc of
        None \<Rightarrow> False
      | Some h \<Rightarrow> (if bullet_y b \<le> - h then True else False))"

text \<open>
  The callback of \<open>this.bullets.forEach\<close> in \<open>draw\<close>, run on the element at index \<open>k\<close>:
  an off-screen bullet is spliced out of the array at its \<open>indexOf\<close>; the bullet object is
  drawn (and moved) in either case, which shows in the pool only while the object is
  still in it.
\<close>

definition draw_visit :: "nat \<Rightarrow> BulletControl \<Rightarrow> BulletControl" where
  "draw_visit k bc =
     (let r = fst (bullets bc ! k);
          b = snd (bullets bc ! k);
          bc1 = (if isOffScreen bc b
                 then bc\<lparr>bullets := splice1 (indexOf (bullets bc) r) (bullets bc)\<rparr>
                 else bc)
      in bc1\<lparr>bullets := map (\<lambda>p. if fst p = r then (fst p, Bullet_draw (snd p)) else p)
                             (bullets bc1)\<rparr>)"

text \<open>
  \<open>Array.prototype.forEach\<close> fixes the number of indices to visit when it starts and, at each
  index, reads the array as it is then: an index that is no longer in the array is
  passed over. \<open>n\<close> is the number of indices still to visit, \<open>k\<close> the next one.
\<close>

fun forEach_bullets :: "nat \<Rightarrow> nat \<Rightarrow> BulletControl \<Rightarrow> BulletControl" where
  "forEach_bullets k 0 bc = bc"
| "forEach_bullets k (Suc n) bc =
     forEach_bullets (Suc k) n (if k < length (bullets bc) then draw_visit k bc else bc)"

definition BulletControl_draw :: "BulletControl \<Rightarrow> BulletControl" where
  "BulletControl_draw bc =
     (let bc1 = (if shooter bc = Some ''player'' then bc\<lparr>waitTime := waitTime bc - 1\<rparr> else bc)
      in forEach_bullets 0 (length (bullets bc1)) bc1)"

definition getBulletInfo :: "BulletControl \<Rightarrow> BulletObj list" where
  "getBulletInfo bc = bullets bc"

definition destroyBullet :: "nat \<Rightarrow> BulletControl \<Rightarrow> BulletControl" where
  "destroyBullet r bc =
     (let bulletIndex = indexOf (bullets bc) r
      in if bulletIndex > - 1 then bc\<lparr>bullets := splice1 bulletIndex (bullets bc)\<rparr> else bc)"

definition clearBullets :: "BulletControl \<Rightarrow> BulletControl" where
  "clearBullets bc = bc\<lparr>bullets := []\<rparr>"

section \<open>Health and score: Lives.js, Scoreboard.js\<close>

text \<open>The module-level variables \<open>maxHP\<close>, \<open>hp\<close>, \<open>tempHPBlock\<close> and \<open>score\<close>, \<open>scoreStorage\<close>.\<close>

record Lives =
  hp :: int
  maxHP :: int
  tempHPBlock :: bool

definition initial_Lives :: Lives where
  "initial_Lives = \<lparr>hp = 3, maxHP = 3, tempHPBlock = False\<rparr>"

definition healthModifier :: "int \<Rightarrow> Lives \<Rightarrow> Lives" where
  "healthModifier i l =
     (let l1 = l\<lparr>hp := hp l + i\<rparr>;
          l2 = (if tempHPBlock l1 = False then l1\<lparr>maxHP := maxHP l1 + i\<rparr> else l1)
      in if maxHP l2 > 3 then l2\<lparr>maxHP := 3\<rparr> else l2)"

definition getCurrenthp :: "Lives \<Rightarrow> int" where
  "getCurrenthp l = hp l"

record Scoreboard =
  score :: int
  scoreStorage :: int

definition addToScore :: "int \<Rightarrow> Scoreboard \<Rightarrow> Scoreboard" where
  "addToScore num sb = sb\<lparr>score := score sb + num, scoreStorage := scoreStorage sb + num\<rparr>"

section \<open>Collision test: script.js\<close>

definition collisionDetected :: "'a Sprite_scheme \<Rightarrow> Bullet \<Rightarrow> bool" where
  "collisionDetected sprite projectile =
     (let spriteTop = getTopEdge sprite;
          spriteBottom = getBottomEdge sprite;
          spriteRight = getRightEdge sprite;
          spriteLeft = getLeftEdge sprite;
          projectileTop = Bullet_getTopEdge projectile;
          projectileBottom = Bullet_getBottomEdge projectile;
          projectileRight = Bullet_getRightEdge projectile;
          projectileLeft = Bullet_getLeftEdge projectile
      in if projectileBottom \<le> spriteTop \<or> projectileTop \<ge> spriteBottom \<or>
            projectileLeft \<ge> spriteRight \<or> projectileRight \<le> spriteLeft
         then False else True)"

section \<open>The enemy grid: enemy/EnemyGridController.js\<close>

text \<open>
  A cell holds an Enemy object or, once the enemy was hit, the value \<open>false\<close>. Reading a
  JavaScript array outside its bounds gives \<open>undefined\<close>, which every test of the source
  treats like \<open>false\<close>, so both are \<open>None\<close>. Reading a property of \<open>undefined\<close> raises
  a TypeError.
\<close>

type_synonym Cell = "Enemy option"
type_synonym Grid = "Cell list list"

datatype error = TypeError

definition cellAt :: "Cell list \<Rightarrow> int \<Rightarrow> Cell" where
  "cellAt row i = (if 0 \<le> i \<and> i < int (length row) then row ! nat i else None)"

definition createEnemies :: Grid where
  "createEnemies =
     map (\<lambda>i. map (\<lambda>j. Some (new_Enemy (PADDING_SIDE + GRID_SPACING_HORIZONTAL * real j)
                                        (GRID_SPACING_VERTICAL * real i)))
                   [1..<Suc GRID_SIZE_COLUMNS])
         [1..<Suc GRID_SIZE_ROWS]"

definition anyEnemiesAlive :: "Grid \<Rightarrow> nat" where
  "anyEnemiesAlive g = length g"

definition getEnemyGrid :: "Grid \<Rightarrow> Grid" where
  "getEnemyGrid g = g"

definition findLeftMostEnemies :: "Grid \<Rightarrow> Enemy list" where
  "findLeftMostEnemies g = List.map_filter (\<lambda>row. cellAt row 0) g"

definition findRightMostEnemies :: "Grid \<Rightarrow> Enemy list" where
  "findRightMostEnemies g = List.map_filter (\<lambda>row. cellAt row (int (length row) - 1)) g"

text \<open>
  The upward search of \<open>findBottomMostEnemies\<close>: \<open>for (row = bottomRowIndex - 1; row >= 0; row--)\<close>.
  The counter is the number of rows above that are still to be looked at.
\<close>

fun searchUpwards :: "Grid \<Rightarrow> nat \<Rightarrow> nat \<Rightarrow> Cell" where
  "searchUpwards g col 0 = None"
| "searchUpwards g col (Suc row) =
     (case cellAt (g ! row) (int col) of
        Some nextEnemy \<Rightarrow> Some nextEnemy
      | None \<Rightarrow> searchUpwards g col row)"

definition findBottomMostEnemies :: "Grid \<Rightarrow> error + Enemy list" where
  "findBottomMostEnemies g =
     (if g = [] then Inl TypeError
      else let bottomRowIndex = length g - 1;
               bottomRow = g ! bottomRowIndex
           in Inr (List.map_filter
                     (\<lambda>col. case bottomRow ! col of
                               Some enemy \<Rightarrow> Some enemy
                             | None \<Rightarrow> searchUpwards g col bottomRowIndex)
                     [0..<length bottomRow]))"

text \<open>
  \<open>clearEnemyGridRows\<close> reads \<open>this.enemyGrid[this.enemyGrid.length - 1].length\<close> before
  anything else; with no rows that is a property of \<open>undefined\<close>.
\<close>

definition clearEnemyGridRows :: "Grid \<Rightarrow> error + (bool \<times> Grid)" where
  "clearEnemyGridRows g =
     (if g = [] then Inl TypeError
      else if list_ex (\<lambda>enemy. enemy \<noteq> None) (last g) then Inr (False, g)
      else Inr (True, butlast g))"

text \<open>
  The tracker array \<open>emptyColumnIndexes\<close> of \<open>clearEnemyGridColumns\<close>: \<open>Some n\<close> is the
  number \<open>n\<close>; \<open>None\<close> is a hole or NaN, which is what \<open>++\<close> leaves at an index beyond the
  array's length. Both \<open>0\<close> and \<open>None\<close> are falsy.
\<close>

definition increment :: "nat option list \<Rightarrow> nat \<Rightarrow> nat option list" where
  "increment t col =
     (if col < length t then t[col := map_option Suc (t ! col)]
      else t @ replicate (col - length t) None @ [None])"

fun countCols :: "nat \<Rightarrow> Cell list \<Rightarrow> nat option list \<Rightarrow> nat option list" where
  "countCols col [] t = t"
| "countCols col (isEnemyAlive # cs) t =
     countCols (Suc col) cs (if isEnemyAlive \<noteq> None then increment t col else t)"

definition truthy :: "nat option \<Rightarrow> bool" where
  "truthy v = (case v of Some n \<Rightarrow> n \<noteq> 0 | None \<Rightarrow> False)"

fun removeColumns :: "nat \<Rightarrow> nat option list \<Rightarrow> bool \<times> Grid \<Rightarrow> bool \<times> Grid" where
  "removeColumns colIdx [] st = st"
| "removeColumns colIdx (isNotEmpty # ts) st =
     removeColumns (Suc colIdx) ts
       (if \<not> truthy isNotEmpty then (True, map (splice1 (int colIdx)) (snd st)) else st)"

definition clearEnemyGridColumns :: "Grid \<Rightarrow> bool \<times> Grid" where
  "clearEnemyGridColumns g =
     (let emptyColumnIndexes = fold (countCols 0) g (replicate GRID_SIZE_COLUMNS (Some 0))
      in removeColumns 0 emptyColumnIndexes (False, g))"

definition changeEnemyDirection :: "bool \<Rightarrow> Grid \<Rightarrow> Grid" where
  "changeEnemyDirection toGoRight g =
     map (map (map_option
       (\<lambda>enemy. moveDown (if toGoRight = True then setDirectionRight enemy
                          else setDirectionLeft enemy)))) g"

text \<open>
  \<open>move\<close> collects both edge lists first; they hold references to the Enemy objects, and
  the second test reads \<open>rightMostEnemies[0]\<close> after \<open>changeEnemyDirection(true)\<close> may have
  run. The grid keeps its shape, so that object is the first right-most enemy of the
  grid as it is then.
\<close>

definition EnemyGridController_move :: "Grid \<Rightarrow> Grid" where
  "EnemyGridController_move g =
     (let leftMostEnemies = findLeftMostEnemies g;
          g1 = (if leftMostEnemies \<noteq> [] \<and> getLeftEdge (hd leftMostEnemies) \<le> PADDING_SIDE
                then changeEnemyDirection True g else g);
          rightMostEnemies = findRightMostEnemies g1
      in if rightMostEnemies \<noteq> [] \<and>
            getRightEdge (hd rightMostEnemies) \<ge> CANVAS_WIDTH - PADDING_SIDE
         then changeEnemyDirection False g1 else g1)"

text \<open>
  \<open>shoot\<close>: \<open>Math.floor(Math.random() * 500)\<close> is drawn once for each bottom-most enemy; the
  draws are the parameter \<open>rnd\<close>, indexed by the enemy's place in the list.
\<close>

fun shootEach :: "(nat \<Rightarrow> int) \<Rightarrow> nat \<Rightarrow> Enemy list \<Rightarrow> BulletControl \<Rightarrow> BulletControl" where
  "shootEach rnd i [] pool = pool"
| "shootEach rnd i (enemy # es) pool =
     shootEach rnd (Suc i) es
       (BulletControl_shoot (getMiddlePosition enemy) (getBottomEdge enemy) (- 3) (rnd i)
          ''enemy_1'' pool)"

definition EnemyGridController_shoot ::
  "(nat \<Rightarrow> int) \<Rightarrow> Grid \<Rightarrow> BulletControl \<Rightarrow> error + BulletControl" where
  "EnemyGridController_shoot rnd g pool =
     (case findBottomMostEnemies g of
        Inl e \<Rightarrow> Inl e
      | Inr bottomMostEnemies \<Rightarrow> Inr (BulletControl_draw (shootEach rnd 0 bottomMostEnemies pool)))"

definition EnemyGridController_draw ::
  "(nat \<Rightarrow> int) \<Rightarrow> Grid \<times> BulletControl \<Rightarrow> error + (Grid \<times> BulletControl)" where
  "EnemyGridController_draw rnd st =
     (let g1 = map (map (map_option Enemy_draw)) (fst st)
      in case clearEnemyGridRows g1 of
           Inl e \<Rightarrow> Inl e
         | Inr r \<Rightarrow>
             (let g3 = snd (clearEnemyGridColumns (snd r))
              in if anyEnemiesAlive g3 \<noteq> 0
                 then (let g4 = EnemyGridController_move g3
                       in case EnemyGridController_shoot rnd g4 (snd st) of
                            Inl e \<Rightarrow> Inl e
                          | Inr pool \<Rightarrow> Inr (g4, pool))
                 else Inr (g3, snd st)))"

definition checkIfEnemyMovesPastPlayer :: "Grid \<Rightarrow> bool" where
  "checkIfEnemyMovesPastPlayer g =
     (if anyEnemiesAlive g \<noteq> 0
      then list_ex (\<lambda>c. case c of
                          Some enemy \<Rightarrow> getBottomEdge enemy > CANVAS_HEIGHT - PADDING_BOTTOM
                        | None \<Rightarrow> False) (last g)
      else False)"

section \<open>The game loop and the collision handlers: script.js\<close>

record Game =
  enemyGrid :: Grid
  Bulletcon :: BulletControl
  enemyProjectileController :: BulletControl
  player :: Player
  health :: Lives
  scoreboard :: Scoreboard

text \<open>
  \<open>enemyCollisionHandler\<close>: \<open>forEach\<close> over the rows and, in each row, \<open>forEach\<close> over the cells.
  Neither array changes its length in the callback (a hit cell is overwritten with
  \<open>false\<close>), so every cell is visited, in row-major order. The pool of the player's
  projectiles and the score are threaded through.
\<close>

fun hitRow ::
  "BulletObj \<Rightarrow> Cell list \<Rightarrow> BulletControl \<times> Scoreboard \<Rightarrow> Cell list \<times> BulletControl \<times> Scoreboard" where
  "hitRow projectile [] st = ([], st)"
| "hitRow projectile (None # cs) st =
     (let r = hitRow projectile cs st in (None # fst r, snd r))"
| "hitRow projectile (Some enemy # cs) st =
     (if collisionDetected enemy (snd projectile)
      then (let r = hitRow projectile cs
                      (destroyBullet (fst projectile) (fst st), addToScore 250 (snd st))
            in (None # fst r, snd r))
      else (let r = hitRow projectile cs st in (Some enemy # fst r, snd r)))"

fun hitGrid ::
  "BulletObj \<Rightarrow> Grid \<Rightarrow> BulletControl \<times> Scoreboard \<Rightarrow> Grid \<times> BulletControl \<times> Scoreboard" where
  "hitGrid projectile [] st = ([], st)"
| "hitGrid projectile (enemyRow # rows) st =
     (let r1 = hitRow projectile enemyRow st;
          r2 = hitGrid projectile rows (snd r1)
      in (fst r1 # fst r2, snd r2))"

definition enemyCollisionHandler :: "BulletObj \<Rightarrow> Game \<Rightarrow> Game" where
  "enemyCollisionHandler projectile game =
     (let r = hitGrid projectile (getEnemyGrid (enemyGrid game)) (Bulletcon game, scoreboard game)
      in game\<lparr>enemyGrid := fst r, Bulletcon := fst (snd r), scoreboard := snd (snd r)\<rparr>)"

definition playerCollisionHandler :: "BulletObj \<Rightarrow> Game \<Rightarrow> Game" where
  "playerCollisionHandler projectile game =
     (if collisionDetected (player game) (snd projectile)
      then game\<lparr>enemyProjectileController :=
                  destroyBullet (fst projectile) (enemyProjectileController game),
                health := healthModifier (- 1) (health game)\<rparr>
      else game)"

definition createNewEnemyWave :: "Game \<Rightarrow> Game" where
  "createNewEnemyWave game =
     game\<lparr>enemyGrid := createEnemies,
          Bulletcon := clearBullets (Bulletcon game),
          enemyProjectileController := clearBullets (enemyProjectileController game)\<rparr>"

text \<open>
  The part of \<open>startGame\<close>, state RUNNING, that drives the grid: with no rows left a new
  wave is created and the frame ends; otherwise the grid controller's \<open>draw\<close> runs.
\<close>

definition runEnemyGrid :: "(nat \<Rightarrow> int) \<Rightarrow> Game \<Rightarrow> error + Game" where
  "runEnemyGrid rnd game =
     (if \<not> (anyEnemiesAlive (enemyGrid game) \<noteq> 0) then Inr (createNewEnemyWave game)
      else case EnemyGridController_draw rnd (enemyGrid game, enemyProjectileController game) of
             Inl e \<Rightarrow> Inl e
           | Inr r \<Rightarrow> Inr (game\<lparr>enemyGrid := fst r, enemyProjectileController := snd r\<rparr>))"

section \<open>Notions used by the statements\<close>

text \<open>
  Positive-area overlap of two axis-aligned boxes, in the words of the specification:
  on each axis the intersection of the two intervals has positive length.
\<close>

definition positive_area_overlap :: "'a Sprite_scheme \<Rightarrow> Bullet \<Rightarrow> bool" where
  "positive_area_overlap sprite projectile =
     (0 < min (getRightEdge sprite) (Bullet_getRightEdge projectile)
          - max (getLeftEdge sprite) (Bullet_getLeftEdge projectile) \<and>
      0 < min (getBottomEdge sprite) (Bullet_getBottomEdge projectile)
          - max (getTopEdge sprite) (Bullet_getTopEdge projectile))"

text \<open>A row (or a column, over all rows) is entirely dead when none of its cells holds an enemy.\<close>

definition allDead :: "Cell list \<Rightarrow> bool" where
  "allDead row = list_all (\<lambda>c. c = None) row"

definition columnDead :: "Grid \<Rightarrow> nat \<Rightarrow> bool" where
  "columnDead g col = list_all (\<lambda>row. cellAt row (int col) = None) g"

text \<open>A cell is overlapped by a projectile when it holds an enemy that \<open>collisionDetected\<close> reports.\<close>

definition overlapped :: "BulletObj \<Rightarrow> Cell \<Rightarrow> bool" where
  "overlapped projectile c =
     (case c of Some enemy \<Rightarrow> collisionDetected enemy (snd projectile) | None \<Rightarrow> False)"

definition hits :: "BulletObj \<Rightarrow> Grid \<Rightarrow> nat" where
  "hits projectile g = length (filter (overlapped projectile) (concat g))"

text \<open>
  The two tests of \<open>move\<close>, and what \<open>changeEnemyDirection\<close> does to one enemy. The edge
  cells of a grid are aligned when they share the edge that \<open>move\<close> reads off the first.
\<close>

definition leftBoundHit :: "Grid \<Rightarrow> bool" where
  "leftBoundHit g =
     (findLeftMostEnemies g \<noteq> [] \<and> getLeftEdge (hd (findLeftMostEnemies g)) \<le> PADDING_SIDE)"

definition rightBoundHit :: "Grid \<Rightarrow> bool" where
  "rightBoundHit g =
     (findRightMostEnemies g \<noteq> [] \<and>
      getRightEdge (hd (findRightMostEnemies g)) \<ge> CANVAS_WIDTH - PADDING_SIDE)"

definition bounce :: "bool \<Rightarrow> Enemy \<Rightarrow> Enemy" where
  "bounce toGoRight enemy =
     moveDown (if toGoRight = True then setDirectionRight enemy else setDirectionLeft enemy)"

definition leftAligned :: "Grid \<Rightarrow> bool" where
  "leftAligned g =
     list_all (\<lambda>e. getLeftEdge e = getLeftEdge (hd (findLeftMostEnemies g)))
       (findLeftMostEnemies g)"

definition rightAligned :: "Grid \<Rightarrow> bool" where
  "rightAligned g =
     list_all (\<lambda>e. getRightEdge e = getRightEdge (hd (findRightMostEnemies g)))
       (findRightMostEnemies g)"

text \<open>
  A grid in formation: its rows have one length and the live cells of a column share
  their x; any two live cells move in step (same direction, same horizontal speed, same
  width, positive vertical step) and the right edge of one is less than the width of
  the playfield, \<open>CANVAS_WIDTH - 2 * PADDING_SIDE\<close>, to the right of the left edge of the other.
\<close>

definition liveCells :: "Grid \<Rightarrow> Enemy list" where
  "liveCells g = List.map_filter (\<lambda>c. c) (concat g)"

definition sameX :: "Cell \<Rightarrow> Cell \<Rightarrow> bool" where
  "sameX c1 c2 =
     (case c1 of None \<Rightarrow> True
      | Some a \<Rightarrow> (case c2 of None \<Rightarrow> True | Some b \<Rightarrow> xPosition a = xPosition b))"

definition columnsAligned :: "Grid \<Rightarrow> bool" where
  "columnsAligned g = list_all (\<lambda>r1. list_all (\<lambda>r2. list_all2 sameX r1 r2) g) g"

definition inStep :: "Enemy \<Rightarrow> Enemy \<Rightarrow> bool" where
  "inStep a b =
     (isGoingRight a = isGoingRight b \<and> horizontalMoveSpeed a = horizontalMoveSpeed b \<and>
      width a = width b \<and> 0 < verticalMoveSpeed a \<and> 0 < verticalMoveSpeed b \<and>
      getRightEdge b - getLeftEdge a < CANVAS_WIDTH - 2 * PADDING_SIDE)"

definition inFormation :: "Grid \<Rightarrow> bool" where
  "inFormation g =
     (columnsAligned g \<and>
      list_all (\<lambda>a. list_all (\<lambda>b. inStep a b) (liveCells g)) (liveCells g))"

text \<open>
  A grid is narrow when it spans less than the width of the playfield: the last conjunct
  of \<open>inStep\<close>, on its own.
\<close>

definition narrow :: "Grid \<Rightarrow> bool" where
  "narrow g =
     list_all (\<lambda>a. list_all (\<lambda>b. getRightEdge b - getLeftEdge a < CANVAS_WIDTH - 2 * PADDING_SIDE)
                         (liveCells g)) (liveCells g)"

text \<open>The enemy that \<open>createEnemies\<close> puts in row \<open>i\<close> and column \<open>j\<close> (both counted from 1).\<close>

definition spawn :: "nat \<Rightarrow> nat \<Rightarrow> Enemy" where
  "spawn i j = new_Enemy (PADDING_SIDE + GRID_SPACING_HORIZONTAL * real j)
                         (GRID_SPACING_VERTICAL * real i)"

section \<open>Properties\<close>

lemmas edge_defs = getTopEdge_def getBottomEdge_def getLeftEdge_def getRightEdge_def
  Bullet_getTopEdge_def Bullet_getBottomEdge_def Bullet_getLeftEdge_def Bullet_getRightEdge_def

text \<open>Unfolding the exponent search one step at a numeral, for evaluating \<open>toDouble\<close>.\<close>

lemma binaryExponent_numeral:
  "binaryExponent (numeral k) x =
     (if 2 \<le> x then binaryExponent (pred_numeral k) (x / 2) + 1
      else if x < 1 then binaryExponent (pred_numeral k) (x * 2) - 1
      else 0)"
  by (simp add: numeral_eq_Suc)

lemmas toDouble_eval = toDouble_def roundHalfEven_def pow2_def Let_def binaryExponent_numeral

text \<open>
  The literal 0.3 is not 3/10, and three steps of 0.3 from 0 give 0.8999999999999999,
  not 0.9.
\<close>

lemma toDouble_three_tenths:
  "toDouble (3 / 10) = 5404319552844595 / 18014398509481984"
  "toDouble (toDouble (toDouble (0 + toDouble (3 / 10)) + toDouble (3 / 10)) + toDouble (3 / 10))
     = 2026619832316723 / 2251799813685248"
  by (simp_all add: toDouble_eval)

text \<open>
  Three steps to the right from 0 end at the double that prints as 0.8999999999999999,
  not at 9/10. Five steps to the left from 61.5 end just above 60, where the exact
  difference is 60: the left-bound test of \<open>move\<close> does not fire on that cell.
\<close>

lemma Enemy_move_rounds:
  "xPosition (Enemy_move (Enemy_move (Enemy_move (new_Enemy 0 0))))
     = 2026619832316723 / 2251799813685248"
  "xPosition (Enemy_move (Enemy_move (Enemy_move (Enemy_move (Enemy_move
      ((new_Enemy (123 / 2) 40)\<lparr>isGoingRight := False\<rparr>))))))
     = 4222124650659841 / 70368744177664"
  "\<not> leftBoundHit [[Some (Enemy_move (Enemy_move (Enemy_move (Enemy_move (Enemy_move
      ((new_Enemy (123 / 2) 40)\<lparr>isGoingRight := False\<rparr>))))))]]"
  by (simp_all add: Enemy_move_def new_Enemy_def toDouble_eval leftBoundHit_def
        findLeftMostEnemies_def cellAt_def getLeftEdge_def PADDING_SIDE_def)

subsection \<open>Collision test\<close>

text \<open>
  C5. For every sprite box and projectile box of positive width and height (every
  constructor sets positive sizes), \<open>collisionDetected\<close> holds exactly when the boxes
  overlap with positive length on both axes; a projectile whose bottom lies on the
  sprite's top, whose top lies on the sprite's bottom, whose left lies on the sprite's
  right or whose right lies on the sprite's left does not collide.
\<close>

theorem collisionDetected_iff_positive_area_overlap:
  assumes "0 < width sprite" and "0 < height sprite"
      and "0 < bullet_width projectile" and "0 < bullet_height projectile"
  shows "(collisionDetected sprite projectile \<longleftrightarrow> positive_area_overlap sprite projectile) \<and>
         (Bullet_getBottomEdge projectile = getTopEdge sprite \<longrightarrow>
            \<not> collisionDetected sprite projectile) \<and>
         (Bullet_getTopEdge projectile = getBottomEdge sprite \<longrightarrow>
            \<not> collisionDetected sprite projectile) \<and>
         (Bullet_getLeftEdge projectile = getRightEdge sprite \<longrightarrow>
            \<not> collisionDetected sprite projectile) \<and>
         (Bullet_getRightEdge projectile = getLeftEdge sprite \<longrightarrow>
            \<not> collisionDetected sprite projectile)"
  using assms
  by (auto simp add: collisionDetected_def positive_area_overlap_def edge_defs Let_def)

theorem collisionDetected_iff_positive_area_overlap_witness:
  "collisionDetected (new_Enemy 100 100) (new_Bullet 105 130 5 ''player'') \<and>
   positive_area_overlap (new_Enemy 100 100) (new_Bullet 105 130 5 ''player'') \<and>
   \<not> collisionDetected (new_Enemy 100 100) (new_Bullet 105 75 5 ''player'') \<and>
   \<not> collisionDetected (new_Enemy 100 100) (new_Bullet 105 140 5 ''player'') \<and>
   \<not> collisionDetected (new_Enemy 100 100) (new_Bullet 130 130 5 ''player'') \<and>
   \<not> collisionDetected (new_Enemy 100 100) (new_Bullet 80 130 5 ''player'')"
  using collisionDetected_iff_positive_area_overlap
          [of "new_Enemy 100 100" "new_Bullet 105 130 5 ''player''"]
        collisionDetected_iff_positive_area_overlap
          [of "new_Enemy 100 100" "new_Bullet 105 75 5 ''player''"]
        collisionDetected_iff_positive_area_overlap
          [of "new_Enemy 100 100" "new_Bullet 105 140 5 ''player''"]
        collisionDetected_iff_positive_area_overlap
          [of "new_Enemy 100 100" "new_Bullet 130 130 5 ''player''"]
        collisionDetected_iff_positive_area_overlap
          [of "new_Enemy 100 100" "new_Bullet 80 130 5 ''player''"]
  by (simp add: new_Enemy_def new_Bullet_def edge_defs positive_area_overlap_def)

subsection \<open>Shape of the grid through a tick\<close>

lemma list_ex_Some_iff:
  "list_ex (\<lambda>enemy. \<exists>y. enemy = Some y) row \<longleftrightarrow> \<not> allDead row"
  by (induction row) (auto simp add: allDead_def)

lemma allDead_map_option [simp]: "allDead (map (map_option f) row) = allDead row"
  by (induction row) (auto simp add: allDead_def)

lemma length_removeColumns [simp]:
  "length (snd (removeColumns k ts st)) = length (snd st)"
  by (induction ts arbitrary: k st) auto

lemma length_clearEnemyGridColumns [simp]:
  "length (snd (clearEnemyGridColumns g)) = length g"
  by (simp add: clearEnemyGridColumns_def Let_def)

lemma length_changeEnemyDirection [simp]:
  "length (changeEnemyDirection b g) = length g"
  by (simp add: changeEnemyDirection_def)

lemma length_EnemyGridController_move [simp]:
  "length (EnemyGridController_move g) = length g"
  by (simp add: EnemyGridController_move_def Let_def)

lemma clearEnemyGridRows_nonempty:
  "g \<noteq> [] \<Longrightarrow>
     clearEnemyGridRows g = Inr (allDead (last g), if allDead (last g) then butlast g else g)"
  by (simp add: clearEnemyGridRows_def list_ex_Some_iff)

lemma findBottomMostEnemies_nonempty:
  "g \<noteq> [] \<Longrightarrow> \<exists>es. findBottomMostEnemies g = Inr es"
  by (simp add: findBottomMostEnemies_def Let_def)

lemma EnemyGridController_shoot_nonempty:
  "g \<noteq> [] \<Longrightarrow> \<exists>pool'. EnemyGridController_shoot rnd g pool = Inr pool'"
  using findBottomMostEnemies_nonempty [of g]
  by (auto simp add: EnemyGridController_shoot_def)

text \<open>
  On a grid with at least one row the controller's \<open>draw\<close> returns, and the number of rows
  it leaves is the number it found, less one when the bottom row was entirely dead.
\<close>

lemma EnemyGridController_draw_nonempty:
  assumes "g \<noteq> []"
  shows "\<exists>g' pool'. EnemyGridController_draw rnd (g, pool) = Inr (g', pool') \<and>
           length g' = (if allDead (last g) then length g - 1 else length g)"
proof -
  let ?g1 = "map (map (map_option Enemy_draw)) g"
  have ne: "?g1 \<noteq> []" using assms by simp
  have dead: "allDead (last ?g1) = allDead (last g)"
    using assms by (simp add: last_map)
  let ?g2 = "if allDead (last g) then butlast ?g1 else ?g1"
  have rows: "clearEnemyGridRows ?g1 = Inr (allDead (last g), ?g2)"
    using clearEnemyGridRows_nonempty [OF ne] dead by simp
  let ?g3 = "snd (clearEnemyGridColumns ?g2)"
  have len3: "length ?g3 = (if allDead (last g) then length g - 1 else length g)"
    by simp
  show ?thesis
  proof (cases "?g3 = []")
    case True
    then have "EnemyGridController_draw rnd (g, pool) = Inr (?g3, pool)"
      by (simp add: EnemyGridController_draw_def rows anyEnemiesAlive_def Let_def)
    with len3 show ?thesis by blast
  next
    case False
    let ?g4 = "EnemyGridController_move ?g3"
    have "?g4 \<noteq> []" using False by (metis length_EnemyGridController_move length_0_conv)
    then obtain pool' where sh: "EnemyGridController_shoot rnd ?g4 pool = Inr pool'"
      using EnemyGridController_shoot_nonempty by blast
    have "EnemyGridController_draw rnd (g, pool) = Inr (?g4, pool')"
      using False sh by (simp add: EnemyGridController_draw_def rows anyEnemiesAlive_def Let_def)
    moreover have "length ?g4 = (if allDead (last g) then length g - 1 else length g)"
      using len3 by simp
    ultimately show ?thesis by blast
  qed
qed

subsection \<open>Row compaction\<close>

text \<open>
  C9. If the bottom row of the grid is entirely dead, \<open>clearEnemyGridRows\<close> removes exactly
  that row; the controller's tick \<open>draw\<close>, which calls it once, leaves exactly one row
  fewer (never more, whatever the rows above hold); and if the row was the only one,
  \<open>anyEnemiesAlive\<close> on what remains is 0.
\<close>

theorem clearEnemyGridRows_bottom_row_dead:
  assumes "g \<noteq> []" and "allDead (last g)"
  shows "clearEnemyGridRows g = Inr (True, butlast g) \<and>
         Suc (length (butlast g)) = length g \<and>
         (\<exists>g' pool'. EnemyGridController_draw rnd (g, pool) = Inr (g', pool') \<and>
                      Suc (length g') = length g) \<and>
         (length g = 1 \<longrightarrow> anyEnemiesAlive (butlast g) = 0)"
proof -
  have 1: "clearEnemyGridRows g = Inr (True, butlast g)"
    using assms clearEnemyGridRows_nonempty [of g] by simp
  have 2: "Suc (length (butlast g)) = length g" using assms by simp
  obtain g' pool' where d: "EnemyGridController_draw rnd (g, pool) = Inr (g', pool')"
      and l: "length g' = length g - 1"
    using EnemyGridController_draw_nonempty [OF assms(1), of rnd pool] assms(2) by auto
  have 3: "\<exists>g' pool'. EnemyGridController_draw rnd (g, pool) = Inr (g', pool') \<and>
                      Suc (length g') = length g"
    using d l assms(1) by (intro exI [of _ g'] exI [of _ pool']) simp
  have 4: "length g = 1 \<longrightarrow> anyEnemiesAlive (butlast g) = 0"
    by (simp add: anyEnemiesAlive_def)
  from 1 2 3 4 show ?thesis by blast
qed

theorem clearEnemyGridRows_bottom_row_dead_witness:
  "clearEnemyGridRows [[None, None]] = Inr (True, []) \<and>
   anyEnemiesAlive (butlast [[None, None]]) = 0 \<and>
   clearEnemyGridRows [[Some (new_Enemy 100 40)], [None]]
     = Inr (True, [[Some (new_Enemy 100 40)]])"
  using clearEnemyGridRows_bottom_row_dead
          [of "[[None, None]]" int "new_BulletControl CANVAS_height"]
        clearEnemyGridRows_bottom_row_dead
          [of "[[Some (new_Enemy 100 40)], [None]]" int "new_BulletControl CANVAS_height"]
  by (simp add: allDead_def)

subsection \<open>Column compaction\<close>

text \<open>
  C1. A grid of two rows and three columns, all alive, is hit by one player projectile
  that lies across the first two columns of both rows: the collision handler leaves the
  first two columns entirely dead and the third alive. The compaction pass of the next
  tick marks indices 0 and 1 in its tracker; removing index 0 moves the second dead
  column to index 0 and the live column to index 1, and the removal at index 1 then
  takes the live column out. What remains is one column, entirely dead; both live
  enemies are gone.
\<close>

theorem clearEnemyGridColumns_two_dead_columns:
  "enemyGrid (enemyCollisionHandler (0, new_Bullet 125 70 5 ''player'')
     \<lparr>enemyGrid = [[Some (new_Enemy 100 40), Some (new_Enemy 140 40), Some (new_Enemy 180 40)],
                   [Some (new_Enemy 100 80), Some (new_Enemy 140 80), Some (new_Enemy 180 80)]],
      Bulletcon = \<lparr>canvas_height = CANVAS_height, bullets = [(0, new_Bullet 125 70 5 ''player'')],
                   waitTime = 39, shooter = Some ''player'', created = 1\<rparr>,
      enemyProjectileController = new_BulletControl CANVAS_height,
      player = new_Player, health = initial_Lives,
      scoreboard = \<lparr>score = 0, scoreStorage = 0\<rparr>\<rparr>)
     = [[None, None, Some (new_Enemy 180 40)], [None, None, Some (new_Enemy 180 80)]] \<and>
   snd (clearEnemyGridColumns
          [[None, None, Some (new_Enemy 180 40)], [None, None, Some (new_Enemy 180 80)]])
     = [[None], [None]] \<and>
   columnDead [[None], [None]] 0"
  by (simp add: enemyCollisionHandler_def getEnemyGrid_def collisionDetected_def new_Enemy_def
        new_Bullet_def edge_defs Let_def
        clearEnemyGridColumns_def GRID_SIZE_COLUMNS_def increment_def truthy_def
        splice1_def columnDead_def cellAt_def eval_nat_numeral)

subsection \<open>Totality of the grid operations\<close>

text \<open>
  C4, as stated, fails: with zero rows \<open>clearEnemyGridRows\<close> reads the length of a row
  that does not exist and raises, and so does the tick \<open>draw\<close>, whose first grid
  operation it is.
\<close>

theorem clearEnemyGridRows_zero_rows_raises:
  "clearEnemyGridRows [] = Inl TypeError \<and>
   EnemyGridController_draw int ([], new_BulletControl CANVAS_height) = Inl TypeError"
  by (simp add: clearEnemyGridRows_def EnemyGridController_draw_def)

text \<open>
  C4, amended. On every grid with at least one row \<open>clearEnemyGridRows\<close>,
  \<open>findBottomMostEnemies\<close> and the tick \<open>draw\<close> return normally; the game loop calls
  \<open>draw\<close> only when \<open>anyEnemiesAlive\<close> is not 0 and creates a new wave otherwise, so its
  grid step returns normally on every grid, the zero-row grid included.
\<close>

theorem grid_tick_total:
  "(g \<noteq> [] \<longrightarrow>
      (\<exists>r. clearEnemyGridRows g = Inr r) \<and>
      (\<exists>es. findBottomMostEnemies g = Inr es) \<and>
      (\<exists>r. EnemyGridController_draw rnd (g, pool) = Inr r)) \<and>
   (\<exists>game'. runEnemyGrid rnd game = Inr game')"
proof -
  have a: "g \<noteq> [] \<longrightarrow> (\<exists>r. clearEnemyGridRows g = Inr r)"
    using clearEnemyGridRows_nonempty [of g] by simp
  have b: "g \<noteq> [] \<longrightarrow> (\<exists>es. findBottomMostEnemies g = Inr es)"
    using findBottomMostEnemies_nonempty [of g] by simp
  have c: "g \<noteq> [] \<longrightarrow> (\<exists>r. EnemyGridController_draw rnd (g, pool) = Inr r)"
    using EnemyGridController_draw_nonempty [of g rnd pool] by blast
  have d: "\<exists>game'. runEnemyGrid rnd game = Inr game'"
  proof (cases "enemyGrid game = []")
    case True
    then show ?thesis by (simp add: runEnemyGrid_def anyEnemiesAlive_def)
  next
    case False
    then obtain r where
      "EnemyGridController_draw rnd (enemyGrid game, enemyProjectileController game) = Inr r"
      using EnemyGridController_draw_nonempty
              [of "enemyGrid game" rnd "enemyProjectileController game"] by blast
    with False show ?thesis by (simp add: runEnemyGrid_def anyEnemiesAlive_def)
  qed
  from a b c d show ?thesis by blast
qed

theorem grid_tick_total_witness:
  "clearEnemyGridRows [[None]] = Inr (True, []) \<and>
   findBottomMostEnemies [[None]] = Inr [] \<and>
   EnemyGridController_draw int ([[None]], new_BulletControl CANVAS_height)
     = Inr ([], new_BulletControl CANVAS_height)"
  using grid_tick_total [of "[[None]]" int "new_BulletControl CANVAS_height"]
  by (simp add: clearEnemyGridRows_def findBottomMostEnemies_def EnemyGridController_draw_def
        clearEnemyGridColumns_def anyEnemiesAlive_def List.map_filter_simps
        GRID_SIZE_COLUMNS_def truthy_def splice1_def Let_def eval_nat_numeral)

subsection \<open>The projectile pool's tick\<close>

lemma draw_visit_fields [simp]:
  "waitTime (draw_visit k bc) = waitTime bc"
  "shooter (draw_visit k bc) = shooter bc"
  "created (draw_visit k bc) = created bc"
  "canvas_height (draw_visit k bc) = canvas_height bc"
  by (simp_all add: draw_visit_def Let_def)

lemma forEach_bullets_fields [simp]:
  "waitTime (forEach_bullets k n bc) = waitTime bc"
  "shooter (forEach_bullets k n bc) = shooter bc"
  "created (forEach_bullets k n bc) = created bc"
  by (induction k n bc rule: forEach_bullets.induct) simp_all

lemma BulletControl_draw_fields:
  "waitTime (BulletControl_draw bc) = (if shooter bc = Some ''player'' then waitTime bc - 1 else waitTime bc)"
  "shooter (BulletControl_draw bc) = shooter bc"
  "created (BulletControl_draw bc) = created bc"
  by (simp_all add: BulletControl_draw_def Let_def)

text \<open>A pool whose canvas object has no \<open>height\<close> never loses a bullet to its tick.\<close>

lemma draw_visit_no_height:
  "canvas_height bc = None \<Longrightarrow> length (bullets (draw_visit k bc)) = length (bullets bc)"
  by (simp add: draw_visit_def isOffScreen_def Let_def)

lemma forEach_bullets_canvas_height [simp]:
  "canvas_height (forEach_bullets k n bc) = canvas_height bc"
  by (induction k n bc rule: forEach_bullets.induct) simp_all

lemma forEach_bullets_no_height:
  "canvas_height bc = None \<Longrightarrow>
     length (bullets (forEach_bullets k n bc)) = length (bullets bc)"
  by (induction k n bc rule: forEach_bullets.induct) (simp_all add: draw_visit_no_height)

lemma BulletControl_draw_no_height:
  "canvas_height bc = None \<Longrightarrow> length (bullets (BulletControl_draw bc)) = length (bullets bc)"
  by (simp add: BulletControl_draw_def Let_def forEach_bullets_no_height)

text \<open>
  C3. The player's pool as script.js builds it, holding one bullet at y = -480, which
  is minus the height of the canvas: the tick tests it against NaN, keeps it and moves
  it on to y = -485. And a pool built on an object whose \<open>height\<close> is 480, holding two
  bullets at y = -480 and y = -500: the tick removes the first while \<open>forEach\<close> is at
  index 0; the second moves to index 0 and is never visited, so it stays, unmoved.
\<close>

theorem BulletControl_draw_keeps_off_screen_bullets:
  "bullets (BulletControl_draw
      (BulletControl_shoot 320 (- 480) 5 39 ''player'' (new_BulletControl CANVAS_height)))
     = [(0, new_Bullet 320 (- 485) 5 ''player'')] \<and>
   bullet_y (new_Bullet 320 (- 480) 5 ''player'') \<le> - CANVAS_HEIGHT \<and>
   bullets (BulletControl_draw
      (BulletControl_shoot 0 (- 500) 5 0 ''player''
        (BulletControl_shoot 0 (- 480) 5 0 ''player'' (new_BulletControl (Some 480)))))
     = [(1, new_Bullet 0 (- 500) 5 ''player'')]"
  by (simp add: BulletControl_draw_def BulletControl_shoot_def requestCadence_def
        new_BulletControl_def CANVAS_height_def CANVAS_HEIGHT_def isOffScreen_def draw_visit_def
        splice1_def new_Bullet_def Bullet_draw_def toDouble_eval eval_nat_numeral)

subsection \<open>Health\<close>

text \<open>
  C10. \<open>healthModifier\<close> adds its argument to \<open>hp\<close> and, whenever \<open>tempHPBlock\<close> is false,
  to \<open>maxHP\<close> as well, capping \<open>maxHP\<close> at 3 from above only; a hit on the player calls it
  with -1. With \<open>tempHPBlock\<close> false and \<open>maxHP\<close> at most 3, \<open>n\<close> hits lower both \<open>maxHP\<close> and
  \<open>hp\<close> by exactly \<open>n\<close>, through 0 and below.
\<close>

theorem healthModifier_lowers_maxHP:
  "hp (healthModifier i l) = hp l + i \<and>
   tempHPBlock (healthModifier i l) = tempHPBlock l \<and>
   maxHP (healthModifier i l) = min 3 (if tempHPBlock l then maxHP l else maxHP l + i) \<and>
   (collisionDetected (player game) (snd projectile) \<longrightarrow>
      health (playerCollisionHandler projectile game) = healthModifier (- 1) (health game)) \<and>
   (\<not> tempHPBlock l \<and> maxHP l \<le> 3 \<longrightarrow>
      maxHP (((healthModifier (- 1)) ^^ n) l) = maxHP l - int n \<and>
      hp (((healthModifier (- 1)) ^^ n) l) = hp l - int n)"
proof -
  have a: "hp (healthModifier i l) = hp l + i" for i l
    by (simp add: healthModifier_def Let_def)
  have b: "tempHPBlock (healthModifier i l) = tempHPBlock l" for i l
    by (simp add: healthModifier_def Let_def)
  have c: "maxHP (healthModifier i l) = min 3 (if tempHPBlock l then maxHP l else maxHP l + i)"
    for i l
    by (simp add: healthModifier_def Let_def)
  have d: "collisionDetected (player game) (snd projectile) \<longrightarrow>
      health (playerCollisionHandler projectile game) = healthModifier (- 1) (health game)"
    by (simp add: playerCollisionHandler_def)
  have e: "\<not> tempHPBlock l \<and> maxHP l \<le> 3 \<longrightarrow>
      maxHP (((healthModifier (- 1)) ^^ n) l) = maxHP l - int n \<and>
      hp (((healthModifier (- 1)) ^^ n) l) = hp l - int n \<and>
      \<not> tempHPBlock (((healthModifier (- 1)) ^^ n) l)"
    by (induction n) (auto simp add: a b c)
  from a b c d e show ?thesis by blast
qed

theorem healthModifier_lowers_maxHP_witness:
  "maxHP (healthModifier (- 1) initial_Lives) = 2 \<and>
   maxHP (((healthModifier (- 1)) ^^ 5) initial_Lives) = - 2 \<and>
   hp (((healthModifier (- 1)) ^^ 5) initial_Lives) = - 2 \<and>
   health (playerCollisionHandler (0, new_Bullet 305 400 (- 3) ''enemy_1'')
     \<lparr>enemyGrid = [], Bulletcon = new_BulletControl CANVAS_height,
      enemyProjectileController = new_BulletControl CANVAS_height,
      player = new_Player, health = initial_Lives,
      scoreboard = \<lparr>score = 0, scoreStorage = 0\<rparr>\<rparr>)
     = \<lparr>hp = 2, maxHP = 2, tempHPBlock = False\<rparr>"
  using healthModifier_lowers_maxHP [of "- 1" initial_Lives
     "\<lparr>enemyGrid = [], Bulletcon = new_BulletControl CANVAS_height,
      enemyProjectileController = new_BulletControl CANVAS_height,
      player = new_Player, health = initial_Lives,
      scoreboard = \<lparr>score = 0, scoreStorage = 0\<rparr>\<rparr>"
     "(0, new_Bullet 305 400 (- 3) ''enemy_1'')" 5]
  by (simp add: initial_Lives_def collisionDetected_def new_Player_def new_Bullet_def edge_defs
       CANVAS_WIDTH_def CANVAS_HEIGHT_def healthModifier_def toDouble_eval)

subsection \<open>Projectile against the grid\<close>

lemma hitRow_cells:
  "fst (hitRow p row st) = map (\<lambda>c. if overlapped p c then None else c) row"
  by (induction p row st rule: hitRow.induct) (simp_all add: overlapped_def Let_def)

lemma hitRow_score:
  "score (snd (snd (hitRow p row st))) =
     score (snd st) + 250 * int (length (filter (overlapped p) row))"
  by (induction p row st rule: hitRow.induct)
     (simp_all add: overlapped_def Let_def addToScore_def)

lemma hitGrid_cells:
  "fst (hitGrid p g st) = map (map (\<lambda>c. if overlapped p c then None else c)) g"
  by (induction p g st rule: hitGrid.induct) (simp_all add: Let_def hitRow_cells)

lemma hitGrid_score:
  "score (snd (snd (hitGrid p g st))) = score (snd st) + 250 * int (hits p g)"
  by (induction p g st rule: hitGrid.induct)
     (simp_all add: Let_def hitRow_score hits_def algebra_simps)

text \<open>
  C2. Two live enemies side by side (30 wide, 40 apart) and a player projectile (20 wide)
  across the gap between them, the only one in the player's pool. The handler goes
  through the whole grid for the projectile: at the first overlapped cell it removes
  the projectile from the pool, and it goes on to the second. Both cells are
  tombstoned, the score rises by 500, and the pool is empty.
\<close>

theorem enemyCollisionHandler_first_match_only_fails:
  "enemyGrid (enemyCollisionHandler (0, new_Bullet 125 110 5 ''player'')
     \<lparr>enemyGrid = [[Some (new_Enemy 100 100), Some (new_Enemy 140 100)]],
      Bulletcon = \<lparr>canvas_height = CANVAS_height, bullets = [(0, new_Bullet 125 110 5 ''player'')],
                   waitTime = 39, shooter = Some ''player'', created = 1\<rparr>,
      enemyProjectileController = new_BulletControl CANVAS_height,
      player = new_Player, health = initial_Lives,
      scoreboard = \<lparr>score = 0, scoreStorage = 0\<rparr>\<rparr>) = [[None, None]] \<and>
   score (scoreboard (enemyCollisionHandler (0, new_Bullet 125 110 5 ''player'')
     \<lparr>enemyGrid = [[Some (new_Enemy 100 100), Some (new_Enemy 140 100)]],
      Bulletcon = \<lparr>canvas_height = CANVAS_height, bullets = [(0, new_Bullet 125 110 5 ''player'')],
                   waitTime = 39, shooter = Some ''player'', created = 1\<rparr>,
      enemyProjectileController = new_BulletControl CANVAS_height,
      player = new_Player, health = initial_Lives,
      scoreboard = \<lparr>score = 0, scoreStorage = 0\<rparr>\<rparr>)) = 500 \<and>
   bullets (Bulletcon (enemyCollisionHandler (0, new_Bullet 125 110 5 ''player'')
     \<lparr>enemyGrid = [[Some (new_Enemy 100 100), Some (new_Enemy 140 100)]],
      Bulletcon = \<lparr>canvas_height = CANVAS_height, bullets = [(0, new_Bullet 125 110 5 ''player'')],
                   waitTime = 39, shooter = Some ''player'', created = 1\<rparr>,
      enemyProjectileController = new_BulletControl CANVAS_height,
      player = new_Player, health = initial_Lives,
      scoreboard = \<lparr>score = 0, scoreStorage = 0\<rparr>\<rparr>)) = [] \<and>
   fst (hitRow (0, new_Bullet 125 110 5 ''player'') [Some (new_Enemy 100 100)]
          (\<lparr>canvas_height = CANVAS_height, bullets = [(0, new_Bullet 125 110 5 ''player'')],
            waitTime = 39, shooter = Some ''player'', created = 1\<rparr>,
           \<lparr>score = 0, scoreStorage = 0\<rparr>)) = [None] \<and>
   bullets (fst (snd (hitRow (0, new_Bullet 125 110 5 ''player'') [Some (new_Enemy 100 100)]
          (\<lparr>canvas_height = CANVAS_height, bullets = [(0, new_Bullet 125 110 5 ''player'')],
            waitTime = 39, shooter = Some ''player'', created = 1\<rparr>,
           \<lparr>score = 0, scoreStorage = 0\<rparr>)))) = []"
  by (simp add: enemyCollisionHandler_def getEnemyGrid_def collisionDetected_def new_Enemy_def
        new_Bullet_def edge_defs addToScore_def Let_def destroyBullet_def splice1_def)

subsection \<open>Fire requests and the cooldown\<close>

lemma draws_player:
  "shooter bc = Some ''player'' \<Longrightarrow>
     waitTime ((BulletControl_draw ^^ n) bc) = waitTime bc - int n \<and>
     shooter ((BulletControl_draw ^^ n) bc) = Some ''player''"
  by (induction n) (simp_all add: BulletControl_draw_fields)

lemma shoot_rejected:
  "0 < waitTime bc \<Longrightarrow>
     BulletControl_shoot x y speed delay sh bc = requestCadence sh (bc\<lparr>shooter := Some sh\<rparr>)"
  by (simp add: BulletControl_shoot_def Let_def)

lemma shoot_admitted:
  "waitTime bc \<le> 0 \<Longrightarrow>
     BulletControl_shoot x y speed delay sh bc =
       requestCadence sh
         (bc\<lparr>shooter := Some sh,
             bullets := bullets bc @ [(created bc, new_Bullet x y speed sh)],
             created := Suc (created bc),
             waitTime := delay\<rparr>)"
  by (simp add: BulletControl_shoot_def Let_def)

lemma shoots_enemy_rejected:
  "sh \<noteq> ''player'' \<Longrightarrow> int n \<le> waitTime bc \<Longrightarrow>
     bullets (((BulletControl_shoot x y speed delay sh) ^^ n) bc) = bullets bc \<and>
     created (((BulletControl_shoot x y speed delay sh) ^^ n) bc) = created bc \<and>
     waitTime (((BulletControl_shoot x y speed delay sh) ^^ n) bc) = waitTime bc - int n"
proof (induction n)
  case 0
  then show ?case by simp
next
  case (Suc n)
  then have ih: "bullets (((BulletControl_shoot x y speed delay sh) ^^ n) bc) = bullets bc"
     "created (((BulletControl_shoot x y speed delay sh) ^^ n) bc) = created bc"
     "waitTime (((BulletControl_shoot x y speed delay sh) ^^ n) bc) = waitTime bc - int n"
    by simp_all
  have pos: "0 < waitTime (((BulletControl_shoot x y speed delay sh) ^^ n) bc)"
    using Suc.prems ih(3) by simp
  show ?case
    using Suc.prems(1) ih
    by (simp add: shoot_rejected [OF pos] requestCadence_def)
qed

text \<open>
  C6, as stated, fails for a shooter other than the player: the request is admitted, and
  the counter the call leaves is one less than the cooldown it was given (10), because
  the same call then decrements it.
\<close>

theorem shoot_enemy_counter_after_admission:
  "bullets (BulletControl_shoot 0 0 (- 3) 10 ''enemy_1'' (new_BulletControl CANVAS_height))
     = [(0, new_Bullet 0 0 (- 3) ''enemy_1'')] \<and>
   waitTime (BulletControl_shoot 0 0 (- 3) 10 ''enemy_1'' (new_BulletControl CANVAS_height)) = 9"
  by (simp add: BulletControl_shoot_def requestCadence_def new_BulletControl_def Let_def)

text \<open>
  C6, amended. A fire request admits a new projectile only when the counter is at most
  0. On admission the counter is set to the given cooldown, after which the call applies
  its decrement for a shooter other than the player: it ends at the cooldown for the
  player and one less otherwise. A request arriving with the counter at 5 leaves the
  pool as it was; after five decrements (five further requests of an enemy shooter, or
  five ticks of the player's pool) the same request is admitted.
\<close>

theorem shoot_cooldown_gate:
  "(bullets (BulletControl_shoot x y speed delay sh bc) \<noteq> bullets bc \<longrightarrow> waitTime bc \<le> 0) \<and>
   (waitTime bc \<le> 0 \<longrightarrow>
      BulletControl_shoot x y speed delay sh bc =
        requestCadence sh
          (bc\<lparr>shooter := Some sh,
              bullets := bullets bc @ [(created bc, new_Bullet x y speed sh)],
              created := Suc (created bc),
              waitTime := delay\<rparr>) \<and>
      waitTime (BulletControl_shoot x y speed delay sh bc)
        = (if sh = ''player'' then delay else delay - 1)) \<and>
   (waitTime bc = 5 \<longrightarrow>
      bullets (BulletControl_shoot x y speed delay sh bc) = bullets bc) \<and>
   (waitTime bc = 5 \<and> sh \<noteq> ''player'' \<longrightarrow>
      bullets (((BulletControl_shoot x y speed delay sh) ^^ 5) bc) = bullets bc \<and>
      waitTime (((BulletControl_shoot x y speed delay sh) ^^ 5) bc) = 0 \<and>
      bullets (((BulletControl_shoot x y speed delay sh) ^^ 6) bc)
        = bullets bc @ [(created bc, new_Bullet x y speed sh)]) \<and>
   (waitTime bc = 5 \<longrightarrow>
      waitTime ((BulletControl_draw ^^ 5) (BulletControl_shoot x y speed delay ''player'' bc)) = 0 \<and>
      bullets (BulletControl_shoot x y speed delay ''player''
                 ((BulletControl_draw ^^ 5) (BulletControl_shoot x y speed delay ''player'' bc)))
        = bullets ((BulletControl_draw ^^ 5) (BulletControl_shoot x y speed delay ''player'' bc))
          @ [(created bc, new_Bullet x y speed ''player'')])"
proof -
  have a: "bullets (BulletControl_shoot x y speed delay sh bc) \<noteq> bullets bc \<longrightarrow> waitTime bc \<le> 0"
    by (simp add: BulletControl_shoot_def requestCadence_def Let_def)
  have b: "waitTime bc \<le> 0 \<longrightarrow>
      BulletControl_shoot x y speed delay sh bc =
        requestCadence sh
          (bc\<lparr>shooter := Some sh,
              bullets := bullets bc @ [(created bc, new_Bullet x y speed sh)],
              created := Suc (created bc),
              waitTime := delay\<rparr>) \<and>
      waitTime (BulletControl_shoot x y speed delay sh bc)
        = (if sh = ''player'' then delay else delay - 1)"
    by (simp add: shoot_admitted requestCadence_def)
  have c: "waitTime bc = 5 \<longrightarrow> bullets (BulletControl_shoot x y speed delay sh bc) = bullets bc"
    by (simp add: BulletControl_shoot_def requestCadence_def Let_def)
  have d: "waitTime bc = 5 \<and> sh \<noteq> ''player'' \<longrightarrow>
      bullets (((BulletControl_shoot x y speed delay sh) ^^ 5) bc) = bullets bc \<and>
      waitTime (((BulletControl_shoot x y speed delay sh) ^^ 5) bc) = 0 \<and>
      bullets (((BulletControl_shoot x y speed delay sh) ^^ 6) bc)
        = bullets bc @ [(created bc, new_Bullet x y speed sh)]"
  proof
    assume h: "waitTime bc = 5 \<and> sh \<noteq> ''player''"
    let ?f = "BulletControl_shoot x y speed delay sh"
    have five: "bullets ((?f ^^ 5) bc) = bullets bc \<and> created ((?f ^^ 5) bc) = created bc \<and>
                waitTime ((?f ^^ 5) bc) = waitTime bc - int 5"
      using shoots_enemy_rejected [of sh 5 bc x y speed delay] h by simp
    have six: "(?f ^^ 6) bc = ?f ((?f ^^ 5) bc)"
      by (simp add: eval_nat_numeral)
    have "bullets (?f ((?f ^^ 5) bc)) = bullets bc @ [(created bc, new_Bullet x y speed sh)]"
      using five h by (simp add: shoot_admitted requestCadence_def)
    with five six h show "bullets ((?f ^^ 5) bc) = bullets bc \<and> waitTime ((?f ^^ 5) bc) = 0 \<and>
      bullets ((?f ^^ 6) bc) = bullets bc @ [(created bc, new_Bullet x y speed sh)]"
      by simp
  qed
  have e: "waitTime bc = 5 \<longrightarrow>
      waitTime ((BulletControl_draw ^^ 5) (BulletControl_shoot x y speed delay ''player'' bc)) = 0 \<and>
      bullets (BulletControl_shoot x y speed delay ''player''
                 ((BulletControl_draw ^^ 5) (BulletControl_shoot x y speed delay ''player'' bc)))
        = bullets ((BulletControl_draw ^^ 5) (BulletControl_shoot x y speed delay ''player'' bc))
          @ [(created bc, new_Bullet x y speed ''player'')]"
  proof
    assume h: "waitTime bc = 5"
    let ?bc1 = "BulletControl_shoot x y speed delay ''player'' bc"
    have r: "?bc1 = bc\<lparr>shooter := Some ''player''\<rparr>"
      using h by (simp add: shoot_rejected requestCadence_def)
    let ?bc2 = "(BulletControl_draw ^^ 5) ?bc1"
    have w: "waitTime ?bc2 = 0"
      using draws_player [of ?bc1 5] r h by simp
    have cr: "created ?bc2 = created bc"
      using r by (simp add: eval_nat_numeral BulletControl_draw_fields)
    have "bullets (BulletControl_shoot x y speed delay ''player'' ?bc2)
            = bullets ?bc2 @ [(created bc, new_Bullet x y speed ''player'')]"
      using w cr by (simp add: shoot_admitted requestCadence_def)
    with w show "waitTime ?bc2 = 0 \<and>
       bullets (BulletControl_shoot x y speed delay ''player'' ?bc2)
            = bullets ?bc2 @ [(created bc, new_Bullet x y speed ''player'')]" by simp
  qed
  from a b c d e show ?thesis by blast
qed

theorem shoot_cooldown_gate_witness:
  "bullets (BulletControl_shoot 320 380 5 39 ''player''
             ((new_BulletControl CANVAS_height)\<lparr>waitTime := 5\<rparr>)) = [] \<and>
   bullets (BulletControl_shoot 320 380 5 39 ''player'' (new_BulletControl CANVAS_height))
     = [(0, new_Bullet 320 380 5 ''player'')] \<and>
   waitTime (BulletControl_shoot 320 380 5 39 ''player'' (new_BulletControl CANVAS_height)) = 39 \<and>
   bullets (((BulletControl_shoot 115 80 (- 3) 7 ''enemy_1'') ^^ 6)
             ((new_BulletControl CANVAS_height)\<lparr>waitTime := 5\<rparr>))
     = [(0, new_Bullet 115 80 (- 3) ''enemy_1'')]"
  using shoot_cooldown_gate [of 320 380 5 39 "''player''"
          "(new_BulletControl CANVAS_height)\<lparr>waitTime := 5\<rparr>"]
        shoot_cooldown_gate [of 320 380 5 39 "''player''" "new_BulletControl CANVAS_height"]
        shoot_cooldown_gate [of 115 80 "- 3" 7 "''enemy_1''"
          "(new_BulletControl CANVAS_height)\<lparr>waitTime := 5\<rparr>"]
  by (simp add: new_BulletControl_def requestCadence_def)

subsection \<open>Bouncing off the side bounds\<close>

lemma changeEnemyDirection_bounce:
  "changeEnemyDirection b g = map (map (map_option (bounce b))) g"
  by (simp add: changeEnemyDirection_def bounce_def [abs_def])

lemma bounce_edges [simp]:
  "getLeftEdge (bounce b e) = getLeftEdge e" "getRightEdge (bounce b e) = getRightEdge e"
  by (simp_all add: bounce_def moveDown_def setDirectionRight_def setDirectionLeft_def edge_defs)

lemma cellAt_map: "cellAt (map (map_option f) row) i = map_option f (cellAt row i)"
  by (auto simp add: cellAt_def nat_less_iff)

lemma findLeftMostEnemies_change:
  "findLeftMostEnemies (changeEnemyDirection b g) = map (bounce b) (findLeftMostEnemies g)"
  by (induction g)
     (auto simp add: findLeftMostEnemies_def changeEnemyDirection_bounce cellAt_map
        split: option.splits)

lemma findRightMostEnemies_change:
  "findRightMostEnemies (changeEnemyDirection b g) = map (bounce b) (findRightMostEnemies g)"
  by (induction g)
     (auto simp add: findRightMostEnemies_def changeEnemyDirection_bounce cellAt_map
        split: option.splits)

lemma rightBoundHit_change [simp]:
  "rightBoundHit (changeEnemyDirection b g) = rightBoundHit g"
  by (cases "findRightMostEnemies g")
     (simp_all add: rightBoundHit_def findRightMostEnemies_change)

lemma move_cases:
  "EnemyGridController_move g =
     (if leftBoundHit g
      then (if rightBoundHit g then changeEnemyDirection False (changeEnemyDirection True g)
            else changeEnemyDirection True g)
      else (if rightBoundHit g then changeEnemyDirection False g else g))"
  using rightBoundHit_change [of True g]
  by (auto simp add: EnemyGridController_move_def Let_def leftBoundHit_def rightBoundHit_def)

lemma both_hit_span:
  "leftBoundHit g \<Longrightarrow> rightBoundHit g \<Longrightarrow>
     getRightEdge (hd (findRightMostEnemies g)) - getLeftEdge (hd (findLeftMostEnemies g))
       \<ge> CANVAS_WIDTH - 2 * PADDING_SIDE"
  by (simp add: leftBoundHit_def rightBoundHit_def)

lemma bounce_effect:
  "isGoingRight (bounce True e)" "\<not> isGoingRight (bounce False e)"
  "xPosition (bounce b e) = xPosition e"
  "0 < verticalMoveSpeed e \<Longrightarrow> yPosition (bounce b e) = yPosition e + verticalMoveSpeed e"
  by (simp_all add: bounce_def moveDown_def setDirectionRight_def setDirectionLeft_def)

lemma leftAligned_some:
  "leftAligned g \<Longrightarrow> list_ex (\<lambda>e. getLeftEdge e \<le> PADDING_SIDE) (findLeftMostEnemies g)
     \<Longrightarrow> leftBoundHit g"
  by (auto simp add: leftAligned_def leftBoundHit_def list_all_iff list_ex_iff)

lemma rightAligned_some:
  "rightAligned g \<Longrightarrow>
   list_ex (\<lambda>e. getRightEdge e \<ge> CANVAS_WIDTH - PADDING_SIDE) (findRightMostEnemies g)
     \<Longrightarrow> rightBoundHit g"
  by (auto simp add: rightAligned_def rightBoundHit_def list_all_iff list_ex_iff)

text \<open>
  Formation through a tick: \<open>createEnemies\<close> makes a grid in formation; both compaction
  passes, \<open>move\<close> and the collision handlers keep a grid in formation; the horizontal step
  of the enemies, and with it the controller's \<open>draw\<close>, keep it as long as the stepped grid
  is narrow.
\<close>

lemma set_liveCells: "set (liveCells g) = {e. \<exists>row \<in> set g. Some e \<in> set row}"
  by (force simp add: liveCells_def List.map_filter_def)

lemma list_all2_sameX_iff:
  "list_all2 sameX r1 r2 \<longleftrightarrow>
     length r1 = length r2 \<and>
     (\<forall>j < length r1. \<forall>a b. r1 ! j = Some a \<longrightarrow> r2 ! j = Some b \<longrightarrow> xPosition a = xPosition b)"
proof -
  have "sameX c1 c2 \<longleftrightarrow> (\<forall>a b. c1 = Some a \<longrightarrow> c2 = Some b \<longrightarrow> xPosition a = xPosition b)"
    for c1 c2
    by (cases c1; cases c2) (simp_all add: sameX_def)
  then show ?thesis by (simp add: list_all2_conv_all_nth)
qed

lemma columnsAligned_iff:
  "columnsAligned g \<longleftrightarrow>
     (\<forall>r1 \<in> set g. \<forall>r2 \<in> set g. length r1 = length r2 \<and>
        (\<forall>j < length r1. \<forall>a b. r1 ! j = Some a \<longrightarrow> r2 ! j = Some b \<longrightarrow> xPosition a = xPosition b))"
  by (simp add: columnsAligned_def list_all_iff list_all2_sameX_iff)

lemma inFormation_iff:
  "inFormation g \<longleftrightarrow>
     columnsAligned g \<and> (\<forall>a \<in> set (liveCells g). \<forall>b \<in> set (liveCells g). inStep a b)"
  by (simp add: inFormation_def list_all_iff)

lemma columnsAlignedD:
  assumes "columnsAligned g" "r1 \<in> set g" "r2 \<in> set g"
  shows "length r1 = length r2"
    and "j < length r1 \<Longrightarrow> r1 ! j = Some a \<Longrightarrow> r2 ! j = Some b \<Longrightarrow> xPosition a = xPosition b"
proof -
  have "\<forall>r1 \<in> set g. \<forall>r2 \<in> set g. length r1 = length r2 \<and>
        (\<forall>j < length r1. \<forall>a b. r1 ! j = Some a \<longrightarrow> r2 ! j = Some b \<longrightarrow> xPosition a = xPosition b)"
    using assms(1) unfolding columnsAligned_iff .
  then have
    *: "length r1 = length r2 \<and>
        (\<forall>j < length r1. \<forall>a b. r1 ! j = Some a \<longrightarrow> r2 ! j = Some b \<longrightarrow> xPosition a = xPosition b)"
    using assms(2,3) by blast
  show "length r1 = length r2" using * by (rule conjunct1)
  show "j < length r1 \<Longrightarrow> r1 ! j = Some a \<Longrightarrow> r2 ! j = Some b \<Longrightarrow> xPosition a = xPosition b"
    using * by blast
qed

lemma columnsAlignedI:
  assumes "\<And>r1 r2. r1 \<in> set g \<Longrightarrow> r2 \<in> set g \<Longrightarrow> length r1 = length r2"
    and "\<And>r1 r2 j a b. r1 \<in> set g \<Longrightarrow> r2 \<in> set g \<Longrightarrow> j < length r1 \<Longrightarrow>
           r1 ! j = Some a \<Longrightarrow> r2 ! j = Some b \<Longrightarrow> xPosition a = xPosition b"
  shows "columnsAligned g"
  unfolding columnsAligned_iff using assms by blast

lemma inFormationD:
  assumes "inFormation g"
  shows "columnsAligned g"
    and "a \<in> set (liveCells g) \<Longrightarrow> b \<in> set (liveCells g) \<Longrightarrow> inStep a b"
  using assms by (simp_all add: inFormation_iff)

lemma inFormationI:
  assumes "columnsAligned g"
    and "\<And>a b. a \<in> set (liveCells g) \<Longrightarrow> b \<in> set (liveCells g) \<Longrightarrow> inStep a b"
  shows "inFormation g"
  using assms by (simp add: inFormation_iff)

lemma liveCellsI:
  assumes "row \<in> set g" "j < length row" "row ! j = Some e"
  shows "e \<in> set (liveCells g)"
proof -
  have "Some e \<in> set row" using assms(2,3) nth_mem [of j row] by simp
  then show ?thesis using assms(1) by (auto simp add: set_liveCells)
qed

lemma liveCellsE:
  assumes "e \<in> set (liveCells g)"
  obtains row where "row \<in> set g" "Some e \<in> set row"
  using assms unfolding set_liveCells by blast

lemma liveCells_subset: "set g' \<subseteq> set g \<Longrightarrow> set (liveCells g') \<subseteq> set (liveCells g)"
  unfolding set_liveCells by blast

lemma inFormation_rows_subset:
  assumes "set g' \<subseteq> set g" "inFormation g"
  shows "inFormation g'"
proof (rule inFormationI)
  show "columnsAligned g'"
  proof (rule columnsAlignedI)
    fix r1 r2 assume r: "r1 \<in> set g'" "r2 \<in> set g'"
    then have r': "r1 \<in> set g" "r2 \<in> set g" using assms(1) by auto
    show "length r1 = length r2"
      using columnsAlignedD(1) [OF inFormationD(1) [OF assms(2)] r'] .
    fix j a b assume "j < length r1" "r1 ! j = Some a" "r2 ! j = Some b"
    then show "xPosition a = xPosition b"
      by (rule columnsAlignedD(2) [OF inFormationD(1) [OF assms(2)] r'])
  qed
next
  fix a b assume "a \<in> set (liveCells g')" "b \<in> set (liveCells g')"
  then have "a \<in> set (liveCells g)" "b \<in> set (liveCells g)"
    using liveCells_subset [OF assms(1)] by auto
  then show "inStep a b" by (rule inFormationD(2) [OF assms(2)])
qed

lemma columnsAligned_cellwise:
  assumes g: "inFormation g"
    and h: "\<And>c e'. h c = Some e' \<Longrightarrow> \<exists>e. c = Some e \<and> e' = f e"
    and fx: "\<And>a b. inStep a b \<Longrightarrow> xPosition a = xPosition b \<Longrightarrow> xPosition (f a) = xPosition (f b)"
  shows "columnsAligned (map (map h) g)"
proof (rule columnsAlignedI)
  note al = inFormationD(1) [OF g]
  fix r1' r2'
  assume "r1' \<in> set (map (map h) g)" "r2' \<in> set (map (map h) g)"
  then obtain r1 r2 where r: "r1 \<in> set g" "r2 \<in> set g" and r': "r1' = map h r1" "r2' = map h r2"
    by auto
  have len: "length r1 = length r2" by (rule columnsAlignedD(1) [OF al r])
  show "length r1' = length r2'" using r' len by simp
  fix j a' b'
  assume j: "j < length r1'" and a': "r1' ! j = Some a'" and b': "r2' ! j = Some b'"
  have j1: "j < length r1" and j2: "j < length r2" using j r' len by simp_all
  from a' r' j1 have "h (r1 ! j) = Some a'" by simp
  then obtain a where a: "r1 ! j = Some a" "a' = f a" using h by blast
  from b' r' j2 have "h (r2 ! j) = Some b'" by simp
  then obtain b where b: "r2 ! j = Some b" "b' = f b" using h by blast
  have x: "xPosition a = xPosition b" by (rule columnsAlignedD(2) [OF al r j1 a(1) b(1)])
  have "a \<in> set (liveCells g)" by (rule liveCellsI [OF r(1) j1 a(1)])
  moreover have "b \<in> set (liveCells g)" by (rule liveCellsI [OF r(2) j2 b(1)])
  ultimately have "inStep a b" by (rule inFormationD(2) [OF g])
  then have "xPosition (f a) = xPosition (f b)" using x by (rule fx)
  then show "xPosition a' = xPosition b'" unfolding a(2) b(2) .
qed

lemma liveCells_cellwise:
  assumes h: "\<And>c e'. h c = Some e' \<Longrightarrow> \<exists>e. c = Some e \<and> e' = f e"
    and e': "e' \<in> set (liveCells (map (map h) g))"
  shows "\<exists>e \<in> set (liveCells g). e' = f e"
proof -
  from e' obtain row' where "row' \<in> set (map (map h) g)" "Some e' \<in> set row'"
    by (rule liveCellsE)
  then obtain row where row: "row \<in> set g" and "Some e' \<in> set (map h row)" by auto
  then obtain c where c: "c \<in> set row" and "h c = Some e'" by auto
  then obtain e where e: "c = Some e" "e' = f e" using h by blast
  have "e \<in> set (liveCells g)" using row c e(1) by (auto simp add: set_liveCells)
  with e(2) show ?thesis by blast
qed

lemma inFormation_cellwise:
  assumes g: "inFormation g"
    and h: "\<And>c e'. h c = Some e' \<Longrightarrow> \<exists>e. c = Some e \<and> e' = f e"
    and f: "\<And>a b. inStep a b \<Longrightarrow> inStep (f a) (f b)"
    and fx: "\<And>a b. inStep a b \<Longrightarrow> xPosition a = xPosition b \<Longrightarrow> xPosition (f a) = xPosition (f b)"
  shows "inFormation (map (map h) g)"
proof (rule inFormationI)
  show "columnsAligned (map (map h) g)"
    using g h fx by (rule columnsAligned_cellwise)
next
  fix a' b'
  assume a': "a' \<in> set (liveCells (map (map h) g))" and b': "b' \<in> set (liveCells (map (map h) g))"
  from liveCells_cellwise [of h f, OF h a'] obtain a where a: "a \<in> set (liveCells g)" "a' = f a"
    by blast
  from liveCells_cellwise [of h f, OF h b'] obtain b where b: "b \<in> set (liveCells g)" "b' = f b"
    by blast
  have "inStep a b" using a(1) b(1) by (rule inFormationD(2) [OF g])
  then have "inStep (f a) (f b)" by (rule f)
  then show "inStep a' b'" unfolding a(2) b(2) .
qed

text \<open>
  The horizontal step rounds each position on its own, so it keeps the columns aligned
  and the cells in step but may change the span of the grid in the last place; it keeps
  a grid in formation whenever the stepped grid is still narrower than the playfield,
  and always when no sum is rounded.
\<close>

lemma narrowD:
  assumes "narrow g" "a \<in> set (liveCells g)" "b \<in> set (liveCells g)"
  shows "getRightEdge b - getLeftEdge a < CANVAS_WIDTH - 2 * PADDING_SIDE"
proof -
  have "\<forall>a \<in> set (liveCells g). \<forall>b \<in> set (liveCells g).
          getRightEdge b - getLeftEdge a < CANVAS_WIDTH - 2 * PADDING_SIDE"
    using assms(1) unfolding narrow_def list_all_iff .
  then show ?thesis using assms(2,3) by blast
qed

lemma inStep_Enemy_draw:
  assumes "inStep a b"
    and "getRightEdge (Enemy_draw b) - getLeftEdge (Enemy_draw a) < CANVAS_WIDTH - 2 * PADDING_SIDE"
  shows "inStep (Enemy_draw a) (Enemy_draw b)"
proof -
  have "isGoingRight (Enemy_draw e) = isGoingRight e \<and>
        horizontalMoveSpeed (Enemy_draw e) = horizontalMoveSpeed e \<and>
        width (Enemy_draw e) = width e \<and> verticalMoveSpeed (Enemy_draw e) = verticalMoveSpeed e"
    for e
    by (simp add: Enemy_draw_def Enemy_move_def)
  then show ?thesis using assms unfolding inStep_def by metis
qed

lemma inStep_Enemy_draw_x:
  "inStep a b \<Longrightarrow> xPosition a = xPosition b \<Longrightarrow>
     xPosition (Enemy_draw a) = xPosition (Enemy_draw b)"
  by (simp add: inStep_def Enemy_draw_def Enemy_move_def)

lemma inStep_bounce: "inStep a b \<Longrightarrow> inStep (bounce d a) (bounce d b)"
  by (simp add: inStep_def bounce_def moveDown_def setDirectionRight_def setDirectionLeft_def
        edge_defs)

lemma inStep_bounce_x:
  "inStep a b \<Longrightarrow> xPosition a = xPosition b \<Longrightarrow> xPosition (bounce d a) = xPosition (bounce d b)"
  by (simp add: bounce_effect)

lemma inFormation_Enemy_draw:
  assumes g: "inFormation g" and n: "narrow (map (map (map_option Enemy_draw)) g)"
  shows "inFormation (map (map (map_option Enemy_draw)) g)"
proof (rule inFormationI)
  have h: "\<And>c e'. map_option Enemy_draw c = Some e' \<Longrightarrow> \<exists>e. c = Some e \<and> e' = Enemy_draw e"
    by auto
  show "columnsAligned (map (map (map_option Enemy_draw)) g)"
    using g h inStep_Enemy_draw_x by (rule columnsAligned_cellwise)
  fix a' b'
  assume a': "a' \<in> set (liveCells (map (map (map_option Enemy_draw)) g))"
     and b': "b' \<in> set (liveCells (map (map (map_option Enemy_draw)) g))"
  from liveCells_cellwise [of "map_option Enemy_draw" Enemy_draw, OF h a']
  obtain a where a: "a \<in> set (liveCells g)" "a' = Enemy_draw a" by blast
  from liveCells_cellwise [of "map_option Enemy_draw" Enemy_draw, OF h b']
  obtain b where b: "b \<in> set (liveCells g)" "b' = Enemy_draw b" by blast
  have st: "inStep a b" using a(1) b(1) by (rule inFormationD(2) [OF g])
  have "getRightEdge b' - getLeftEdge a' < CANVAS_WIDTH - 2 * PADDING_SIDE"
    using n a' b' by (rule narrowD)
  then show "inStep a' b'" unfolding a(2) b(2) by (rule inStep_Enemy_draw [OF st])
qed

lemma narrow_Enemy_draw_exact:
  assumes g: "inFormation g"
    and exact: "\<And>e. e \<in> set (liveCells g) \<Longrightarrow>
                  xPosition (Enemy_draw e) =
                    (if isGoingRight e then xPosition e + horizontalMoveSpeed e
                     else xPosition e - horizontalMoveSpeed e)"
  shows "narrow (map (map (map_option Enemy_draw)) g)"
  unfolding narrow_def list_all_iff
proof (intro ballI)
  have h: "\<And>c e'. map_option Enemy_draw c = Some e' \<Longrightarrow> \<exists>e. c = Some e \<and> e' = Enemy_draw e"
    by auto
  fix a' b'
  assume a': "a' \<in> set (liveCells (map (map (map_option Enemy_draw)) g))"
     and b': "b' \<in> set (liveCells (map (map (map_option Enemy_draw)) g))"
  from liveCells_cellwise [of "map_option Enemy_draw" Enemy_draw, OF h a']
  obtain a where a: "a \<in> set (liveCells g)" "a' = Enemy_draw a" by blast
  from liveCells_cellwise [of "map_option Enemy_draw" Enemy_draw, OF h b']
  obtain b where b: "b \<in> set (liveCells g)" "b' = Enemy_draw b" by blast
  have st: "inStep a b" using a(1) b(1) by (rule inFormationD(2) [OF g])
  have w: "width (Enemy_draw b) = width b" by (simp add: Enemy_draw_def Enemy_move_def)
  have "getRightEdge (Enemy_draw b) - getLeftEdge (Enemy_draw a) = getRightEdge b - getLeftEdge a"
    using st exact [OF a(1)] exact [OF b(1)] w
    by (simp add: inStep_def getRightEdge_def getLeftEdge_def)
  then show "getRightEdge b' - getLeftEdge a' < CANVAS_WIDTH - 2 * PADDING_SIDE"
    using st unfolding a(2) b(2) by (simp add: inStep_def)
qed

lemma inFormation_changeEnemyDirection:
  "inFormation g \<Longrightarrow> inFormation (changeEnemyDirection d g)"
  unfolding changeEnemyDirection_bounce
  by (rule inFormation_cellwise [where f = "bounce d"])
     (auto simp add: inStep_bounce inStep_bounce_x)

lemma inFormation_tombstone:
  "inFormation g \<Longrightarrow> inFormation (map (map (\<lambda>c. if P c then None else c)) g)"
  by (rule inFormation_cellwise [where f = "\<lambda>e. e"]) (auto split: if_splits)

lemma inFormation_move:
  "inFormation g \<Longrightarrow> inFormation (EnemyGridController_move g)"
  by (simp add: move_cases inFormation_changeEnemyDirection)

lemma inFormation_enemyCollisionHandler:
  "inFormation (enemyGrid game) \<Longrightarrow> inFormation (enemyGrid (enemyCollisionHandler p game))"
  by (simp add: enemyCollisionHandler_def getEnemyGrid_def Let_def hitGrid_cells
        inFormation_tombstone)

lemma splice1_int: "splice1 (int k) xs = take k xs @ drop (Suc k) xs"
proof (cases "k < length xs")
  case True
  then show ?thesis by (simp add: splice1_def Let_def min_def)
next
  case False
  then show ?thesis by (simp add: splice1_def Let_def min_def)
qed

lemma set_splice1_subset: "set (splice1 (int k) xs) \<subseteq> set xs"
  using set_take_subset [of k xs] set_drop_subset [of "Suc k" xs]
  by (auto simp add: splice1_int)

lemma splice1_beyond: "length xs \<le> k \<Longrightarrow> splice1 (int k) xs = xs"
  by (simp add: splice1_int)

lemma length_splice1_within: "k < length xs \<Longrightarrow> Suc (length (splice1 (int k) xs)) = length xs"
  by (simp add: splice1_int min_def)

lemma nth_splice1_within:
  "k < length xs \<Longrightarrow> Suc j < length xs \<Longrightarrow>
     splice1 (int k) xs ! j = xs ! (if j < k then j else Suc j)"
  by (simp add: splice1_int nth_append min_def)

lemma inFormation_splice:
  assumes g: "inFormation g"
  shows "inFormation (map (splice1 (int k)) g)"
proof (rule inFormationI)
  note al = inFormationD(1) [OF g]
  show "columnsAligned (map (splice1 (int k)) g)"
  proof (rule columnsAlignedI)
    fix r1' r2'
    assume "r1' \<in> set (map (splice1 (int k)) g)" "r2' \<in> set (map (splice1 (int k)) g)"
    then obtain r1 r2 where r: "r1 \<in> set g" "r2 \<in> set g"
        and r': "r1' = splice1 (int k) r1" "r2' = splice1 (int k) r2"
      by auto
    have len: "length r1 = length r2" by (rule columnsAlignedD(1) [OF al r])
    show len': "length r1' = length r2'"
    proof (cases "k < length r1")
      case True
      then show ?thesis
        using length_splice1_within [of k r1] length_splice1_within [of k r2] len r' by simp
    next
      case False
      then show ?thesis using len r' by (simp add: splice1_beyond)
    qed
    fix j a b
    assume j: "j < length r1'" and a: "r1' ! j = Some a" and b: "r2' ! j = Some b"
    show "xPosition a = xPosition b"
    proof (cases "k < length r1")
      case True
      then have k2: "k < length r2" using len by simp
      have sj: "Suc j < length r1" using j r'(1) length_splice1_within [OF True] by simp
      then have sj2: "Suc j < length r2" using len by simp
      let ?i = "if j < k then j else Suc j"
      have i: "?i < length r1" using sj by simp
      have "r1 ! ?i = Some a" using a r'(1) nth_splice1_within [OF True sj] by simp
      moreover have "r2 ! ?i = Some b" using b r'(2) nth_splice1_within [OF k2 sj2] by simp
      ultimately show ?thesis by (rule columnsAlignedD(2) [OF al r i])
    next
      case False
      then have "r1' = r1" "r2' = r2" using r' len by (simp_all add: splice1_beyond)
      then show ?thesis
        using columnsAlignedD(2) [OF al r, of j a b] j a b by blast
    qed
  qed
next
  fix a b
  assume "a \<in> set (liveCells (map (splice1 (int k)) g))"
     and "b \<in> set (liveCells (map (splice1 (int k)) g))"
  moreover have "set (liveCells (map (splice1 (int k)) g)) \<subseteq> set (liveCells g)"
    using set_splice1_subset [of k] by (fastforce simp add: set_liveCells)
  ultimately have "a \<in> set (liveCells g)" "b \<in> set (liveCells g)" by blast+
  then show "inStep a b" by (rule inFormationD(2) [OF g])
qed

lemma inFormation_removeColumns:
  "inFormation (snd st) \<Longrightarrow> inFormation (snd (removeColumns k ts st))"
  by (induction k ts st rule: removeColumns.induct) (simp_all add: inFormation_splice)

lemma inFormation_clearEnemyGridColumns:
  "inFormation g \<Longrightarrow> inFormation (snd (clearEnemyGridColumns g))"
  by (simp add: clearEnemyGridColumns_def Let_def inFormation_removeColumns)

lemma inFormation_butlast: "inFormation g \<Longrightarrow> inFormation (butlast g)"
  by (rule inFormation_rows_subset [of "butlast g" g]) (auto dest: in_set_butlastD)

lemma inFormation_EnemyGridController_draw:
  assumes "inFormation g" and "narrow (map (map (map_option Enemy_draw)) g)"
    and "EnemyGridController_draw rnd (g, pool) = Inr (g', pool')"
  shows "inFormation g'"
proof -
  let ?g1 = "map (map (map_option Enemy_draw)) g"
  have g1: "inFormation ?g1" using assms(1,2) by (rule inFormation_Enemy_draw)
  show ?thesis
  proof (cases "g = []")
    case True
    then show ?thesis using assms(3) by (simp add: EnemyGridController_draw_def clearEnemyGridRows_def)
  next
    case False
    then have ne: "?g1 \<noteq> []" by simp
    let ?g2 = "if allDead (last ?g1) then butlast ?g1 else ?g1"
    have g2: "inFormation ?g2" using g1 by (simp add: inFormation_butlast)
    let ?g3 = "snd (clearEnemyGridColumns ?g2)"
    have g3: "inFormation ?g3" using g2 by (rule inFormation_clearEnemyGridColumns)
    have g4: "inFormation (EnemyGridController_move ?g3)" using g3 by (rule inFormation_move)
    have "g' = ?g3 \<or> g' = EnemyGridController_move ?g3"
      using assms(3) clearEnemyGridRows_nonempty [OF ne]
      by (auto simp add: EnemyGridController_draw_def Let_def split: if_splits sum.splits)
    then show ?thesis using g3 g4 by blast
  qed
qed

lemma GRID_SPACING_values:
  "GRID_SPACING_VERTICAL = 40" "GRID_SPACING_HORIZONTAL = 40"
  by (simp_all add: GRID_SPACING_VERTICAL_def GRID_SPACING_HORIZONTAL_def gridArea_HEIGHT_def
        gridArea_WIDTH_def CANVAS_WIDTH_def CANVAS_HEIGHT_def PADDING_SIDE_def PADDING_TOP_def
        PADDING_BOTTOM_def GRID_SIZE_ROWS_def GRID_SIZE_COLUMNS_def)

lemma createEnemies_rows:
  assumes "row \<in> set createEnemies"
  shows "\<exists>i. row = map (\<lambda>j. Some (spawn i j)) [1..<Suc GRID_SIZE_COLUMNS]"
  using assms by (auto simp add: createEnemies_def spawn_def)

lemma inStep_spawn:
  assumes "1 \<le> j" "j \<le> 11" "1 \<le> j'" "j' \<le> 11"
  shows "inStep (spawn i j) (spawn i' j')"
proof -
  have "real j' - real j \<le> 10" using assms by linarith
  then show ?thesis
    by (simp add: inStep_def spawn_def new_Enemy_def edge_defs GRID_SPACING_values
          PADDING_SIDE_def CANVAS_WIDTH_def)
qed

lemma inFormation_createEnemies: "inFormation createEnemies"
proof (rule inFormationI)
  show "columnsAligned createEnemies"
  proof (rule columnsAlignedI)
    fix r1 r2 assume r: "r1 \<in> set createEnemies" "r2 \<in> set createEnemies"
    obtain i1 where r1: "r1 = map (\<lambda>j. Some (spawn i1 j)) [1..<Suc GRID_SIZE_COLUMNS]"
      using createEnemies_rows [OF r(1)] by blast
    obtain i2 where r2: "r2 = map (\<lambda>j. Some (spawn i2 j)) [1..<Suc GRID_SIZE_COLUMNS]"
      using createEnemies_rows [OF r(2)] by blast
    show "length r1 = length r2" using r1 r2 by simp
    fix j a b assume j: "j < length r1" and a: "r1 ! j = Some a" and b: "r2 ! j = Some b"
    have "a = spawn i1 (Suc j)" using a j unfolding r1 by (simp del: upt_Suc)
    moreover have "b = spawn i2 (Suc j)" using b j unfolding r1 r2 by (simp del: upt_Suc)
    ultimately show "xPosition a = xPosition b" by (simp add: spawn_def new_Enemy_def)
  qed
next
  fix a b
  assume a: "a \<in> set (liveCells createEnemies)" and b: "b \<in> set (liveCells createEnemies)"
  have sp: "\<exists>i j. e = spawn i j \<and> 1 \<le> j \<and> j \<le> 11" if "e \<in> set (liveCells createEnemies)" for e
  proof -
    from that obtain row where row: "row \<in> set createEnemies" "Some e \<in> set row"
      by (rule liveCellsE)
    obtain i where "row = map (\<lambda>j. Some (spawn i j)) [1..<Suc GRID_SIZE_COLUMNS]"
      using createEnemies_rows [OF row(1)] by blast
    with row(2) obtain j where "e = spawn i j" "1 \<le> j" "j \<le> 11"
      by (auto simp add: GRID_SIZE_COLUMNS_def)
    then show ?thesis by blast
  qed
  from sp [OF a] obtain i j where a': "a = spawn i j" "1 \<le> j" "j \<le> 11" by blast
  from sp [OF b] obtain i' j' where b': "b = spawn i' j'" "1 \<le> j'" "j' \<le> 11" by blast
  show "inStep a b" unfolding a'(1) b'(1) by (rule inStep_spawn [OF a'(2,3) b'(2,3)])
qed

lemma findLeftMostEnemies_cells:
  assumes "e \<in> set (findLeftMostEnemies g)"
  shows "\<exists>row \<in> set g. 0 < length row \<and> row ! 0 = Some e"
  using assms
  by (auto simp add: findLeftMostEnemies_def List.map_filter_def cellAt_def split: if_splits)

lemma findRightMostEnemies_cells:
  assumes "e \<in> set (findRightMostEnemies g)"
  shows "\<exists>row \<in> set g. 0 < length row \<and> row ! (length row - 1) = Some e"
proof -
  from assms obtain row where row: "row \<in> set g"
      and c: "cellAt row (int (length row) - 1) = Some e"
    by (auto simp add: findRightMostEnemies_def List.map_filter_def)
  from c have pos: "0 < length row" by (auto simp add: cellAt_def split: if_splits)
  then have "nat (int (length row) - 1) = length row - 1" by simp
  with c pos have "row ! (length row - 1) = Some e"
    by (auto simp add: cellAt_def split: if_splits)
  with row pos show ?thesis by blast
qed

lemma inFormation_not_both_bounds:
  assumes g: "inFormation g"
  shows "\<not> (leftBoundHit g \<and> rightBoundHit g)"
proof
  assume h: "leftBoundHit g \<and> rightBoundHit g"
  let ?l = "hd (findLeftMostEnemies g)" and ?r = "hd (findRightMostEnemies g)"
  from h have l: "?l \<in> set (findLeftMostEnemies g)" "getLeftEdge ?l \<le> PADDING_SIDE"
    by (simp_all add: leftBoundHit_def)
  from h have r: "?r \<in> set (findRightMostEnemies g)" "getRightEdge ?r \<ge> CANVAS_WIDTH - PADDING_SIDE"
    by (simp_all add: rightBoundHit_def)
  obtain row1 where "row1 \<in> set g" "0 < length row1" "row1 ! 0 = Some ?l"
    using findLeftMostEnemies_cells [OF l(1)] by blast
  then have ll: "?l \<in> set (liveCells g)" by (blast intro: liveCellsI)
  obtain row2 where row2: "row2 \<in> set g" "0 < length row2" "row2 ! (length row2 - 1) = Some ?r"
    using findRightMostEnemies_cells [OF r(1)] by blast
  have "length row2 - 1 < length row2" using row2(2) by simp
  then have rl: "?r \<in> set (liveCells g)" using row2 by (blast intro: liveCellsI)
  have "inStep ?l ?r" using ll rl by (rule inFormationD(2) [OF g])
  then have "getRightEdge ?r - getLeftEdge ?l < CANVAS_WIDTH - 2 * PADDING_SIDE"
    by (simp add: inStep_def)
  with l(2) r(2) show False by simp
qed

lemma inFormation_leftAligned:
  assumes g: "inFormation g"
  shows "leftAligned g"
proof -
  note al = inFormationD(1) [OF g]
  have "getLeftEdge a = getLeftEdge b"
    if ma: "a \<in> set (findLeftMostEnemies g)" and mb: "b \<in> set (findLeftMostEnemies g)" for a b
  proof -
    obtain r1 where r1: "r1 \<in> set g" "0 < length r1" "r1 ! 0 = Some a"
      using findLeftMostEnemies_cells [OF ma] by blast
    obtain r2 where r2: "r2 \<in> set g" "0 < length r2" "r2 ! 0 = Some b"
      using findLeftMostEnemies_cells [OF mb] by blast
    have "xPosition a = xPosition b"
      by (rule columnsAlignedD(2) [OF al r1(1) r2(1) r1(2) r1(3) r2(3)])
    then show ?thesis by (simp add: getLeftEdge_def)
  qed
  then have eq: "\<And>a b. a \<in> set (findLeftMostEnemies g) \<Longrightarrow>
      b \<in> set (findLeftMostEnemies g) \<Longrightarrow> getLeftEdge a = getLeftEdge b" .
  show ?thesis
    unfolding leftAligned_def list_all_iff
  proof
    fix e assume e: "e \<in> set (findLeftMostEnemies g)"
    then have "findLeftMostEnemies g \<noteq> []" by auto
    then have "hd (findLeftMostEnemies g) \<in> set (findLeftMostEnemies g)" by (rule hd_in_set)
    with e show "getLeftEdge e = getLeftEdge (hd (findLeftMostEnemies g))" by (rule eq)
  qed
qed

lemma inFormation_rightAligned:
  assumes g: "inFormation g"
  shows "rightAligned g"
proof -
  note al = inFormationD(1) [OF g]
  have "getRightEdge a = getRightEdge b"
    if ma: "a \<in> set (findRightMostEnemies g)" and mb: "b \<in> set (findRightMostEnemies g)" for a b
  proof -
    obtain r1 where r1: "r1 \<in> set g" "0 < length r1" "r1 ! (length r1 - 1) = Some a"
      using findRightMostEnemies_cells [OF ma] by blast
    obtain r2 where r2: "r2 \<in> set g" "0 < length r2" "r2 ! (length r2 - 1) = Some b"
      using findRightMostEnemies_cells [OF mb] by blast
    have len: "length r1 = length r2" by (rule columnsAlignedD(1) [OF al r1(1) r2(1)])
    have i: "length r1 - 1 < length r1" using r1(2) by simp
    have i2: "length r2 - 1 < length r2" using r2(2) by simp
    have b': "r2 ! (length r1 - 1) = Some b" unfolding len by (rule r2(3))
    have x: "xPosition a = xPosition b"
      by (rule columnsAlignedD(2) [OF al r1(1) r2(1) i r1(3) b'])
    have "a \<in> set (liveCells g)" by (rule liveCellsI [OF r1(1) i r1(3)])
    moreover have "b \<in> set (liveCells g)" by (rule liveCellsI [OF r2(1) i2 r2(3)])
    ultimately have "inStep a b" by (rule inFormationD(2) [OF g])
    then have w: "width a = width b" unfolding inStep_def by blast
    show ?thesis unfolding getRightEdge_def x w by (rule refl)
  qed
  then have eq: "\<And>a b. a \<in> set (findRightMostEnemies g) \<Longrightarrow>
      b \<in> set (findRightMostEnemies g) \<Longrightarrow> getRightEdge a = getRightEdge b" .
  show ?thesis
    unfolding rightAligned_def list_all_iff
  proof
    fix e assume e: "e \<in> set (findRightMostEnemies g)"
    then have "findRightMostEnemies g \<noteq> []" by auto
    then have "hd (findRightMostEnemies g) \<in> set (findRightMostEnemies g)" by (rule hd_in_set)
    with e show "getRightEdge e = getRightEdge (hd (findRightMostEnemies g))" by (rule eq)
  qed
qed


lemma inFormation_descends:
  assumes "inFormation g" "e \<in> set (liveCells g)"
  shows "yPosition (bounce d e) = yPosition e + verticalMoveSpeed e"
proof -
  have "inStep e e" using assms(2) assms(2) by (rule inFormationD(2) [OF assms(1)])
  then have "0 < verticalMoveSpeed e" unfolding inStep_def by blast
  then show ?thesis by (rule bounce_effect(4))
qed

lemma inFormation_invariant:
  "inFormation createEnemies \<and>
   (inFormation g \<longrightarrow>
      inFormation (butlast g) \<and> inFormation (snd (clearEnemyGridColumns g)) \<and>
      inFormation (EnemyGridController_move g)) \<and>
   (inFormation g \<and> narrow (map (map (map_option Enemy_draw)) g) \<and>
    EnemyGridController_draw rnd (g, pool) = Inr (g', pool') \<longrightarrow> inFormation g') \<and>
   (inFormation (enemyGrid game) \<longrightarrow>
      inFormation (enemyGrid (enemyCollisionHandler p game)) \<and>
      inFormation (enemyGrid (playerCollisionHandler p game)) \<and>
      inFormation (enemyGrid (createNewEnemyWave game))) \<and>
   (inFormation (enemyGrid game) \<and>
    narrow (map (map (map_option Enemy_draw)) (enemyGrid game)) \<and>
    runEnemyGrid rnd game = Inr game' \<longrightarrow> inFormation (enemyGrid game'))"
proof -
  have a: "inFormation g \<and> narrow (map (map (map_option Enemy_draw)) g) \<and>
    EnemyGridController_draw rnd (g, pool) = Inr (g', pool') \<longrightarrow> inFormation g'"
    using inFormation_EnemyGridController_draw by blast
  have b: "inFormation (enemyGrid (playerCollisionHandler p game)) = inFormation (enemyGrid game)"
    by (simp add: playerCollisionHandler_def)
  have c: "inFormation (enemyGrid (createNewEnemyWave game))"
    by (simp add: createNewEnemyWave_def inFormation_createEnemies)
  have d: "inFormation (enemyGrid game) \<and>
    narrow (map (map (map_option Enemy_draw)) (enemyGrid game)) \<and>
    runEnemyGrid rnd game = Inr game' \<longrightarrow> inFormation (enemyGrid game')"
  proof
    assume h: "inFormation (enemyGrid game) \<and>
      narrow (map (map (map_option Enemy_draw)) (enemyGrid game)) \<and>
      runEnemyGrid rnd game = Inr game'"
    show "inFormation (enemyGrid game')"
    proof (cases "enemyGrid game = []")
      case True
      then have "game' = createNewEnemyWave game"
        using h by (simp add: runEnemyGrid_def anyEnemiesAlive_def)
      then show ?thesis using c by simp
    next
      case False
      then obtain r where r: "EnemyGridController_draw rnd
                                (enemyGrid game, enemyProjectileController game) = Inr r"
          and g': "enemyGrid game' = fst r"
        using h by (auto simp add: runEnemyGrid_def anyEnemiesAlive_def split: sum.splits)
      have "EnemyGridController_draw rnd (enemyGrid game, enemyProjectileController game)
              = Inr (fst r, snd r)" using r by simp
      then have "inFormation (fst r)"
        using h inFormation_EnemyGridController_draw by blast
      then show ?thesis using g' by simp
    qed
  qed
  have e: "inFormation g \<longrightarrow>
      inFormation (butlast g) \<and> inFormation (snd (clearEnemyGridColumns g)) \<and>
      inFormation (EnemyGridController_move g)"
    using inFormation_butlast inFormation_clearEnemyGridColumns inFormation_move by blast
  from a b c d e inFormation_createEnemies inFormation_enemyCollisionHandler show ?thesis
    by blast
qed

text \<open>
  C7, as stated, fails in three ways. First grid, in formation: the first cell of the
  only row is dead and the live cell after it, the left-most live cell of the grid, is
  at the left bound; \<open>findLeftMostEnemies\<close> looks at index 0 of each row and finds nothing,
  and \<open>move\<close> changes nothing. Second grid: the left-most live cell of the second row is
  at the left bound, that of the first row is not; \<open>move\<close> reads only the first and
  changes nothing. Third grid: a row reaching from the left bound to the right bound;
  both tests fire, every cell ends going left and 40 lower, twice the vertical step.
\<close>

theorem move_bounce_fails:
  "inFormation [[None, Some ((new_Enemy 60 40)\<lparr>isGoingRight := False\<rparr>)]] \<and>
   liveCells [[None, Some ((new_Enemy 60 40)\<lparr>isGoingRight := False\<rparr>)]]
     = [(new_Enemy 60 40)\<lparr>isGoingRight := False\<rparr>] \<and>
   getLeftEdge ((new_Enemy 60 40)\<lparr>isGoingRight := False\<rparr>) \<le> PADDING_SIDE \<and>
   findLeftMostEnemies [[None, Some ((new_Enemy 60 40)\<lparr>isGoingRight := False\<rparr>)]] = [] \<and>
   EnemyGridController_move [[None, Some ((new_Enemy 60 40)\<lparr>isGoingRight := False\<rparr>)]]
     = [[None, Some ((new_Enemy 60 40)\<lparr>isGoingRight := False\<rparr>)]] \<and>
   findLeftMostEnemies
     [[Some ((new_Enemy 100 40)\<lparr>isGoingRight := False\<rparr>)],
      [Some ((new_Enemy 50 80)\<lparr>isGoingRight := False\<rparr>)]]
     = [(new_Enemy 100 40)\<lparr>isGoingRight := False\<rparr>, (new_Enemy 50 80)\<lparr>isGoingRight := False\<rparr>] \<and>
   getLeftEdge ((new_Enemy 50 80)\<lparr>isGoingRight := False\<rparr>) \<le> PADDING_SIDE \<and>
   EnemyGridController_move
     [[Some ((new_Enemy 100 40)\<lparr>isGoingRight := False\<rparr>)],
      [Some ((new_Enemy 50 80)\<lparr>isGoingRight := False\<rparr>)]]
     = [[Some ((new_Enemy 100 40)\<lparr>isGoingRight := False\<rparr>)],
        [Some ((new_Enemy 50 80)\<lparr>isGoingRight := False\<rparr>)]] \<and>
   findLeftMostEnemies [[Some (new_Enemy 50 40), Some (new_Enemy 560 40)]] = [new_Enemy 50 40] \<and>
   getLeftEdge (new_Enemy 50 40) \<le> PADDING_SIDE \<and>
   EnemyGridController_move [[Some (new_Enemy 50 40), Some (new_Enemy 560 40)]]
     = [[Some ((new_Enemy 50 80)\<lparr>isGoingRight := False\<rparr>),
         Some ((new_Enemy 560 80)\<lparr>isGoingRight := False\<rparr>)]]"
  by (simp add: EnemyGridController_move_def findLeftMostEnemies_def findRightMostEnemies_def
        changeEnemyDirection_def cellAt_def edge_defs new_Enemy_def PADDING_SIDE_def CANVAS_WIDTH_def
        moveDown_def setDirectionRight_def setDirectionLeft_def Let_def
        inFormation_def columnsAligned_def sameX_def liveCells_def inStep_def)

text \<open>
  C7, amended. \<open>move\<close> looks at the first cell of each row for the left bound and at the
  last cell of each row for the right bound, and only at those that are alive. On a grid
  in formation in which the first cell of some row is alive and has its left edge at or
  below the side padding, \<open>move\<close> turns every live cell to the right and lowers it by
  exactly its vertical step, leaving x and the dead cells as they are; symmetrically
  when the last cell of some row is alive and has its right edge at or beyond the canvas
  width minus the side padding. On any grid the same holds when the first such cell in
  row order is at the bound and the test for the opposite bound does not fire in the
  same call; the vertical step is applied when it is positive.
\<close>

theorem move_bounce_once:
  "(inFormation g \<and> list_ex (\<lambda>e. getLeftEdge e \<le> PADDING_SIDE) (findLeftMostEnemies g)
      \<longrightarrow> EnemyGridController_move g = map (map (map_option (bounce True))) g) \<and>
   (inFormation g \<and>
    list_ex (\<lambda>e. getRightEdge e \<ge> CANVAS_WIDTH - PADDING_SIDE) (findRightMostEnemies g)
      \<longrightarrow> EnemyGridController_move g = map (map (map_option (bounce False))) g) \<and>
   (inFormation g \<and> e \<in> set (liveCells g)
      \<longrightarrow> yPosition (bounce b e) = yPosition e + verticalMoveSpeed e) \<and>
   (leftBoundHit g \<and> \<not> rightBoundHit g \<longrightarrow>
      EnemyGridController_move g = map (map (map_option (bounce True))) g) \<and>
   (rightBoundHit g \<and> \<not> leftBoundHit g \<longrightarrow>
      EnemyGridController_move g = map (map (map_option (bounce False))) g) \<and>
   isGoingRight (bounce True e) \<and> \<not> isGoingRight (bounce False e) \<and>
   xPosition (bounce b e) = xPosition e \<and>
   (0 < verticalMoveSpeed e \<longrightarrow> yPosition (bounce b e) = yPosition e + verticalMoveSpeed e)"
proof -
  have l: "leftBoundHit g \<and> \<not> rightBoundHit g"
    if "inFormation g" "list_ex (\<lambda>e. getLeftEdge e \<le> PADDING_SIDE) (findLeftMostEnemies g)"
    using that leftAligned_some [of g] inFormation_leftAligned [of g]
      inFormation_not_both_bounds [of g] by blast
  have r: "rightBoundHit g \<and> \<not> leftBoundHit g"
    if "inFormation g"
       "list_ex (\<lambda>e. getRightEdge e \<ge> CANVAS_WIDTH - PADDING_SIDE) (findRightMostEnemies g)"
    using that rightAligned_some [of g] inFormation_rightAligned [of g]
      inFormation_not_both_bounds [of g] by blast
  have m1: "leftBoundHit g \<and> \<not> rightBoundHit g \<longrightarrow>
      EnemyGridController_move g = map (map (map_option (bounce True))) g"
    by (simp add: move_cases changeEnemyDirection_bounce)
  have m2: "rightBoundHit g \<and> \<not> leftBoundHit g \<longrightarrow>
      EnemyGridController_move g = map (map (map_option (bounce False))) g"
    by (simp add: move_cases changeEnemyDirection_bounce)
  have d: "inFormation g \<and> e \<in> set (liveCells g)
      \<longrightarrow> yPosition (bounce b e) = yPosition e + verticalMoveSpeed e"
    using inFormation_descends by blast
  have e: "isGoingRight (bounce True e) \<and> \<not> isGoingRight (bounce False e) \<and>
      xPosition (bounce b e) = xPosition e \<and>
      (0 < verticalMoveSpeed e \<longrightarrow> yPosition (bounce b e) = yPosition e + verticalMoveSpeed e)"
    by (simp add: bounce_effect)
  from l r m1 m2 d e show ?thesis by blast
qed

theorem move_bounce_once_witness:
  "inFormation [[Some (new_Enemy 60 40), None], [Some (new_Enemy 60 80), Some (new_Enemy 100 80)]] \<and>
   EnemyGridController_move
     [[Some (new_Enemy 60 40), None], [Some (new_Enemy 60 80), Some (new_Enemy 100 80)]]
     = [[Some (new_Enemy 60 60), None], [Some (new_Enemy 60 100), Some (new_Enemy 100 100)]] \<and>
   EnemyGridController_move
     [[Some ((new_Enemy 510 40)\<lparr>isGoingRight := False\<rparr>), Some (new_Enemy 550 40)]]
     = [[Some ((new_Enemy 510 60)\<lparr>isGoingRight := False\<rparr>),
         Some ((new_Enemy 550 60)\<lparr>isGoingRight := False\<rparr>)]]"
  using move_bounce_once
          [of "[[Some (new_Enemy 60 40), None], [Some (new_Enemy 60 80), Some (new_Enemy 100 80)]]"
              "new_Enemy 60 40" True]
        move_bounce_once
          [of "[[Some ((new_Enemy 510 40)\<lparr>isGoingRight := False\<rparr>), Some (new_Enemy 550 40)]]"
              "new_Enemy 60 40" True]
  by (simp add: inFormation_def columnsAligned_def sameX_def liveCells_def inStep_def
        leftBoundHit_def rightBoundHit_def findLeftMostEnemies_def findRightMostEnemies_def
        cellAt_def edge_defs new_Enemy_def PADDING_SIDE_def CANVAS_WIDTH_def bounce_def
        moveDown_def setDirectionRight_def setDirectionLeft_def)

text \<open>
  C8, as stated, fails: on a row reaching from the left bound to the right bound the
  left-bound test fires (the grid descends to y = 60, going right) and the right-bound
  test fires as well in the same call (y = 80, going left).
\<close>

theorem move_both_checks_fire:
  "leftBoundHit [[Some (new_Enemy 50 40), Some (new_Enemy 560 40)]] \<and>
   EnemyGridController_move [[Some (new_Enemy 50 40), Some (new_Enemy 560 40)]]
     = changeEnemyDirection False
         (changeEnemyDirection True [[Some (new_Enemy 50 40), Some (new_Enemy 560 40)]]) \<and>
   changeEnemyDirection True [[Some (new_Enemy 50 40), Some (new_Enemy 560 40)]]
     = [[Some (new_Enemy 50 60), Some (new_Enemy 560 60)]] \<and>
   EnemyGridController_move [[Some (new_Enemy 50 40), Some (new_Enemy 560 40)]]
     = [[Some ((new_Enemy 50 80)\<lparr>isGoingRight := False\<rparr>),
         Some ((new_Enemy 560 80)\<lparr>isGoingRight := False\<rparr>)]]"
  by (simp add: EnemyGridController_move_def findLeftMostEnemies_def findRightMostEnemies_def
        leftBoundHit_def
        changeEnemyDirection_def cellAt_def edge_defs new_Enemy_def PADDING_SIDE_def CANVAS_WIDTH_def
        moveDown_def setDirectionRight_def setDirectionLeft_def Let_def)

text \<open>
  C8, amended. \<open>move\<close> evaluates the left-bound test first and the right-bound test
  after it, independently: each fires when its own bound is met, so both fire in a call
  in which both bounds are met. On a grid in formation, and on any grid whose first
  right-most cell's right edge is less than the width of the playfield away from the
  first left-most cell's left edge, the bounds are never both met and at most one test
  takes effect.
\<close>

theorem move_checks_independent:
  "EnemyGridController_move g =
     (if leftBoundHit g
      then (if rightBoundHit g then changeEnemyDirection False (changeEnemyDirection True g)
            else changeEnemyDirection True g)
      else (if rightBoundHit g then changeEnemyDirection False g else g)) \<and>
   (inFormation g \<or>
    getRightEdge (hd (findRightMostEnemies g)) - getLeftEdge (hd (findLeftMostEnemies g))
       < CANVAS_WIDTH - 2 * PADDING_SIDE \<longrightarrow>
      \<not> (leftBoundHit g \<and> rightBoundHit g) \<and>
      (EnemyGridController_move g = g \<or>
       EnemyGridController_move g = changeEnemyDirection True g \<or>
       EnemyGridController_move g = changeEnemyDirection False g))"
proof -
  have "\<not> (leftBoundHit g \<and> rightBoundHit g)"
    if "inFormation g \<or>
        getRightEdge (hd (findRightMostEnemies g)) - getLeftEdge (hd (findLeftMostEnemies g))
          < CANVAS_WIDTH - 2 * PADDING_SIDE"
    using that both_hit_span [of g] inFormation_not_both_bounds [of g] by fastforce
  then show ?thesis by (auto simp add: move_cases)
qed

theorem move_checks_independent_witness:
  "inFormation [[Some (new_Enemy 60 40), Some (new_Enemy 100 40)]] \<and>
   EnemyGridController_move [[Some (new_Enemy 60 40), Some (new_Enemy 100 40)]]
     = changeEnemyDirection True [[Some (new_Enemy 60 40), Some (new_Enemy 100 40)]]"
  using move_checks_independent [of "[[Some (new_Enemy 60 40), Some (new_Enemy 100 40)]]"]
  by (simp add: inFormation_def columnsAligned_def sameX_def liveCells_def inStep_def
        leftBoundHit_def rightBoundHit_def findLeftMostEnemies_def findRightMostEnemies_def
        cellAt_def edge_defs new_Enemy_def PADDING_SIDE_def CANVAS_WIDTH_def)

end
